theory Spec2Isabelle
  imports Complex_Main "HOL-Library.Product_Lexorder"
begin

section \<open>JavaScript values used by the client\<close>

text \<open>
  A JavaScript number as far as the client needs it: a finite value, the two infinities,
  or NaN. Every comparison with NaN is false.
\<close>

datatype jsnum = Num rat | PosInf | NegInf | NaN

fun js_le :: "jsnum \<Rightarrow> jsnum \<Rightarrow> bool" where
  "js_le NaN _ = False"
| "js_le _ NaN = False"
| "js_le NegInf _ = True"
| "js_le _ PosInf = True"
| "js_le (Num a) (Num b) = (a \<le> b)"
| "js_le PosInf _ = False"
| "js_le _ NegInf = False"

fun js_gt :: "jsnum \<Rightarrow> jsnum \<Rightarrow> bool" where
  "js_gt NaN _ = False"
| "js_gt _ NaN = False"
| "js_gt PosInf PosInf = False"
| "js_gt PosInf _ = True"
| "js_gt NegInf _ = False"
| "js_gt (Num a) (Num b) = (a > b)"
| "js_gt (Num a) NegInf = True"
| "js_gt (Num a) PosInf = False"

text \<open>
  A value read from a response body. A property read gives \<open>None\<close> for
  \<open>undefined\<close>; the members of an object are its own properties, keys distinct.
\<close>

datatype json =
    JNull
  | JBool bool
  | JNum jsnum
  | JStr string
  | JArr "json list"
  | JObj "(string \<times> json) list"

fun truthy :: "json \<Rightarrow> bool" where
  "truthy JNull = False"
| "truthy (JBool b) = b"
| "truthy (JNum (Num q)) = (q \<noteq> 0)"
| "truthy (JNum NaN) = False"
| "truthy (JNum PosInf) = True"
| "truthy (JNum NegInf) = True"
| "truthy (JStr s) = (s \<noteq> [])"
| "truthy (JArr xs) = True"
| "truthy (JObj kvs) = True"

text \<open>
  What a \<open>catch\<close> clause receives: an \<open>Error\<close> object carrying its message, or any
  other thrown value.
\<close>

datatype thrown = ErrorObj string | NonError

text \<open>
  \<open>String.prototype.includes\<close> (a reserved word here, hence the prefix): the
  pattern occurs as a contiguous run.
\<close>

fun str_includes :: "string \<Rightarrow> string \<Rightarrow> bool" where
  "str_includes [] pat = (pat = [])"
| "str_includes (c # cs) pat = (take (length pat) (c # cs) = pat \<or> str_includes cs pat)"

section \<open>Interfaces of \<open>services/api.ts\<close>\<close>

record Provider =
  p_id :: string
  p_userId :: string
  p_firstName :: string
  p_lastName :: string
  p_phone :: string
  p_providerType :: string
  p_businessName :: string
  p_specialization :: "string option"
  p_licenseNumber :: "string option"
  p_bio :: "string option"
  p_slotDurationMinutes :: jsnum
  p_bookingLimitDays :: jsnum
  p_isActive :: bool

record ScheduleConfigRequest =
  scr_dayOfWeek :: jsnum
  scr_startTime :: string
  scr_endTime :: string
  scr_slotMetric :: jsnum
  scr_isCount :: bool

record AvailableDatesRequest =
  adr_providerId :: string
  adr_days :: jsnum

record AvailableDate =
  ad_date :: string
  ad_dayOfWeek :: jsnum
  ad_dayName :: string
  ad_isAvailable :: bool
  ad_reason :: "string option"

record AvailableSlotsRequest =
  asr_providerId :: string
  asr_date :: string

record TimeSlot =
  ts_startTime :: string
  ts_endTime :: string
  ts_isAvailable :: bool
  ts_capacity :: "jsnum option"
  ts_bookedCount :: "jsnum option"
  ts_remainingSlots :: "jsnum option"

record BookAppointmentRequest =
  bar_providerId :: string
  bar_appointmentDate :: string
  bar_startTime :: string
  bar_serviceDescription :: "string option"

text \<open>
  The requests the pages hand to \<open>apiService\<close>, in the order they are issued, and the
  toasts they raise.
\<close>

datatype api_call =
    GetProvidersByType string
  | GetAvailableDates AvailableDatesRequest
  | GetAvailableSlots AvailableSlotsRequest
  | BookAppointment BookAppointmentRequest
  | CreateScheduleConfig ScheduleConfigRequest

datatype toast = ToastError string | ToastInfo string | ToastSuccess string

record effects =
  toasts :: "toast list"
  calls :: "api_call list"

definition raise_toast :: "toast \<Rightarrow> 'a effects_scheme \<Rightarrow> 'a effects_scheme" where
  "raise_toast t st = st\<lparr>toasts := toasts st @ [t]\<rparr>"

definition issue :: "api_call \<Rightarrow> 'a effects_scheme \<Rightarrow> 'a effects_scheme" where
  "issue c st = st\<lparr>calls := calls st @ [c]\<rparr>"

text \<open>The booking requests among the issued calls, in order.\<close>

fun bookingCalls :: "api_call list \<Rightarrow> BookAppointmentRequest list" where
  "bookingCalls [] = []"
| "bookingCalls (BookAppointment r # cs) = r # bookingCalls cs"
| "bookingCalls (c # cs) = bookingCalls cs"

fun slotQueries :: "api_call list \<Rightarrow> AvailableSlotsRequest list" where
  "slotQueries [] = []"
| "slotQueries (GetAvailableSlots r # cs) = r # slotQueries cs"
| "slotQueries (c # cs) = slotQueries cs"

fun scheduleCalls :: "api_call list \<Rightarrow> ScheduleConfigRequest list" where
  "scheduleCalls [] = []"
| "scheduleCalls (CreateScheduleConfig r # cs) = r # scheduleCalls cs"
| "scheduleCalls (c # cs) = scheduleCalls cs"

section \<open>The runtime: \<open>Date\<close>, \<open>parseInt\<close>, property reads\<close>

text \<open>
  The environment of the browser: \<open>dateParse\<close> is the time value \<open>new Date(s)\<close> holds
  (milliseconds since the epoch, \<open>None\<close> for an invalid date), \<open>localTZA\<close> the offset of
  local time from UTC at a UTC time, \<open>tzName\<close> the implementation-defined zone name that
  ends \<open>toTimeString\<close>, and \<open>localeTime\<close>, \<open>localeDate\<close> the en-US renderings of
  \<open>toLocaleTimeString\<close> and \<open>toLocaleDateString\<close> with the options the page passes.
  \<open>nullRead\<close> is the \<open>TypeError\<close> the engine throws when a property of \<open>null\<close> is
  read, and \<open>stringOf\<close> its string conversion of a value that is not a string.
\<close>

record jsenv =
  dateParse :: "string \<Rightarrow> int option"
  localTZA :: "int \<Rightarrow> int"
  tzName :: "int \<Rightarrow> string"
  localeTime :: "int option \<Rightarrow> string"
  localeDate :: "int option \<Rightarrow> string"
  nullRead :: "string \<Rightarrow> thrown"
  stringOf :: "json \<Rightarrow> string"

definition msPerSecond :: int where "msPerSecond = 1000"
definition msPerMinute :: int where "msPerMinute = 60000"
definition msPerHour :: int where "msPerHour = 3600000"

definition LocalTime :: "jsenv \<Rightarrow> int \<Rightarrow> int" where
  "LocalTime env t = t + localTZA env t"

definition HourFromTime :: "int \<Rightarrow> nat" where
  "HourFromTime t = nat ((t div msPerHour) mod 24)"

definition MinFromTime :: "int \<Rightarrow> nat" where
  "MinFromTime t = nat ((t div msPerMinute) mod 60)"

definition SecFromTime :: "int \<Rightarrow> nat" where
  "SecFromTime t = nat ((t div msPerSecond) mod 60)"

definition digitChar :: "nat \<Rightarrow> char" where
  "digitChar d = ''0123456789'' ! (d mod 10)"

text \<open>Two decimal digits, zero padded (the argument is below 100 wherever it is used).\<close>

definition pad2 :: "nat \<Rightarrow> string" where
  "pad2 n = [digitChar (n div 10), digitChar n]"

definition TimeString :: "int \<Rightarrow> string" where
  "TimeString t =
     pad2 (HourFromTime t) @ '':'' @ pad2 (MinFromTime t) @ '':'' @ pad2 (SecFromTime t) @ '' GMT''"

definition TimeZoneString :: "jsenv \<Rightarrow> int \<Rightarrow> string" where
  "TimeZoneString env tv =
     (let offset = localTZA env tv;
          absOffset = \<bar>offset\<bar>
      in (if 0 \<le> offset then ''+'' else ''-'')
         @ pad2 (HourFromTime absOffset) @ pad2 (MinFromTime absOffset) @ tzName env tv)"

definition toTimeString :: "jsenv \<Rightarrow> int option \<Rightarrow> string" where
  "toTimeString env d =
     (case d of
        None \<Rightarrow> ''Invalid Date''
      | Some tv \<Rightarrow> TimeString (LocalTime env tv) @ TimeZoneString env tv)"

text \<open>\<open>s.slice(0, n)\<close> for a non-negative \<open>n\<close>.\<close>

definition slice0 :: "nat \<Rightarrow> string \<Rightarrow> string" where
  "slice0 n s = take n s"

text \<open>
  \<open>parseInt(s)\<close> with no radix: leading white space is skipped, then an optional sign,
  then an optional \<open>0x\<close> that selects radix 16, then the longest run of digits; no digit
  gives NaN. Strings are taken as 8-bit code units; the rounding of a long digit run to a
  double and the sign of zero are left out.
\<close>

definition isWhiteSpace :: "char \<Rightarrow> bool" where
  "isWhiteSpace c = ((of_char c :: nat) \<in> {9, 10, 11, 12, 13, 32, 160})"

definition radixDigit :: "nat \<Rightarrow> char \<Rightarrow> nat option" where
  "radixDigit R c =
     (let n = (of_char c :: nat);
          v = (if 48 \<le> n \<and> n \<le> 57 then Some (n - 48)
               else if 97 \<le> n \<and> n \<le> 122 then Some (n - 87)
               else if 65 \<le> n \<and> n \<le> 90 then Some (n - 55)
               else None)
      in case v of None \<Rightarrow> None | Some d \<Rightarrow> if d < R then Some d else None)"

definition radixValue :: "nat \<Rightarrow> string \<Rightarrow> nat" where
  "radixValue R Z =
     foldl (\<lambda>a c. a * R + (case radixDigit R c of None \<Rightarrow> 0 | Some d \<Rightarrow> d)) 0 Z"

definition parseInt :: "string \<Rightarrow> jsnum" where
  "parseInt inputString =
     (let S = dropWhile isWhiteSpace inputString;
          sign = (if S \<noteq> [] \<and> hd S = CHR ''-'' then - 1 else (1 :: int));
          S1 = (if S \<noteq> [] \<and> (hd S = CHR ''+'' \<or> hd S = CHR ''-'') then tl S else S);
          hex = (take 2 S1 = ''0x'' \<or> take 2 S1 = ''0X'');
          R = (if hex then 16 else 10);
          S2 = (if hex then drop 2 S1 else S1);
          Z = takeWhile (\<lambda>c. radixDigit R c \<noteq> None) S2
      in if Z = [] then NaN else Num (of_int (sign * int (radixValue R Z))))"

text \<open>
  Reading property \<open>k\<close> of a value, for the keys the service reads (\<open>success\<close>,
  \<open>data\<close>, \<open>message\<close>, \<open>dates\<close>, \<open>slots\<close>): \<open>null\<close> throws, an object gives its member
  or \<open>undefined\<close>, every other value gives \<open>undefined\<close>.
\<close>

definition getProp :: "jsenv \<Rightarrow> json \<Rightarrow> string \<Rightarrow> thrown + json option" where
  "getProp env v k =
     (case v of
        JNull \<Rightarrow> Inl (nullRead env k)
      | JObj kvs \<Rightarrow> Inr (map_of kvs k)
      | _ \<Rightarrow> Inr None)"

definition js_ToString :: "jsenv \<Rightarrow> json \<Rightarrow> string" where
  "js_ToString env v = (case v of JStr s \<Rightarrow> s | _ \<Rightarrow> stringOf env v)"

text \<open>\<open>a || b\<close> where \<open>a\<close> was read from a property.\<close>

definition js_or :: "json option \<Rightarrow> json \<Rightarrow> json" where
  "js_or a b = (case a of None \<Rightarrow> b | Some v \<Rightarrow> if truthy v then v else b)"

fun showNat :: "nat \<Rightarrow> string" where
  "showNat n = (if n < 10 then [digitChar n] else showNat (n div 10) @ [digitChar n])"

section \<open>The customer page\<close>

record CustomerState = effects +
  providers :: "Provider list"
  availableDates :: "AvailableDate list"
  timeSlots :: "TimeSlot list"
  selectedProviderType :: string
  selectedProvider :: string
  selectedDate :: string
  selectedTimeSlot :: string
  serviceDescription :: string
  isLoadingProviders :: bool
  isLoadingDates :: bool
  isLoadingSlots :: bool
  isBooking :: bool

definition formatDate :: "jsenv \<Rightarrow> string \<Rightarrow> string" where
  "formatDate env dateString = localeDate env (dateParse env dateString)"

definition formatTime :: "jsenv \<Rightarrow> string \<Rightarrow> string" where
  "formatTime env isoString = localeTime env (dateParse env isoString)"

definition formatTimeTo24Hour :: "jsenv \<Rightarrow> string \<Rightarrow> string" where
  "formatTimeTo24Hour env isoString = slice0 5 (toTimeString env (dateParse env isoString))"

text \<open>
  Each handler is given the outcome of the request it awaits (\<open>Inl\<close> what the call threw,
  \<open>Inr\<close> what it resolved to) and returns the state once the handler has settled. The
  \<open>console.error\<close> lines leave no trace in the state. The value a booking or a schedule
  creation resolves to is never read by the pages and is kept as the \<open>json\<close> it came as.
\<close>

definition loadAvailableDates ::
  "(thrown + AvailableDate list) \<Rightarrow> string \<Rightarrow> CustomerState \<Rightarrow> CustomerState" where
  "loadAvailableDates outcome providerId st =
     (let st1 = st\<lparr>isLoadingDates := True, availableDates := [], selectedDate := [],
                    timeSlots := [], selectedTimeSlot := []\<rparr>;
          st2 = issue (GetAvailableDates \<lparr>adr_providerId = providerId, adr_days = Num 30\<rparr>) st1;
          st3 = (case outcome of
                   Inr dates \<Rightarrow>
                     (let avail = filter ad_isAvailable dates;
                          st' = st2\<lparr>availableDates := avail\<rparr>
                      in if length avail = 0
                         then raise_toast (ToastInfo ''No available dates found for this provider'') st'
                         else st')
                 | Inl error \<Rightarrow> raise_toast (ToastError ''Failed to load available dates'') st2)
      in st3\<lparr>isLoadingDates := False\<rparr>)"

definition loadTimeSlots ::
  "(thrown + TimeSlot list) \<Rightarrow> string \<Rightarrow> string \<Rightarrow> CustomerState \<Rightarrow> CustomerState" where
  "loadTimeSlots outcome providerId date st =
     (let st1 = st\<lparr>isLoadingSlots := True, timeSlots := [], selectedTimeSlot := []\<rparr>;
          st2 = issue (GetAvailableSlots \<lparr>asr_providerId = providerId, asr_date = date\<rparr>) st1;
          st3 = (case outcome of
                   Inr slots \<Rightarrow>
                     (let st' = st2\<lparr>timeSlots := slots\<rparr>
                      in if length (filter ts_isAvailable slots) = 0
                         then raise_toast (ToastInfo ''No available time slots for this date'') st'
                         else st')
                 | Inl error \<Rightarrow> raise_toast (ToastError ''Failed to load time slots'') st2)
      in st3\<lparr>isLoadingSlots := False\<rparr>)"

definition handleProviderChange ::
  "(thrown + AvailableDate list) \<Rightarrow> string \<Rightarrow> CustomerState \<Rightarrow> CustomerState" where
  "handleProviderChange outcome v st = loadAvailableDates outcome v (st\<lparr>selectedProvider := v\<rparr>)"

definition handleDateChange ::
  "(thrown + TimeSlot list) \<Rightarrow> string \<Rightarrow> CustomerState \<Rightarrow> CustomerState" where
  "handleDateChange outcome v st =
     loadTimeSlots outcome (selectedProvider st) v (st\<lparr>selectedDate := v\<rparr>)"

definition handleTimeSlotChange :: "string \<Rightarrow> CustomerState \<Rightarrow> CustomerState" where
  "handleTimeSlotChange v st = st\<lparr>selectedTimeSlot := v\<rparr>"

text \<open>
  The options of the two selects, each \<open>SelectItem\<close> given by its \<open>value\<close>: the date
  select maps over \<open>availableDates\<close>, the time-slot select over the slots of \<open>timeSlots\<close>
  that pass \<open>slot.isAvailable\<close>.
\<close>

definition dateSelectItems :: "CustomerState \<Rightarrow> string list" where
  "dateSelectItems st = map ad_date (availableDates st)"

definition selectableSlots :: "CustomerState \<Rightarrow> TimeSlot list" where
  "selectableSlots st = filter ts_isAvailable (timeSlots st)"

definition slotSelectItems :: "CustomerState \<Rightarrow> string list" where
  "slotSelectItems st = map ts_startTime (selectableSlots st)"

definition bookingRequest :: "jsenv \<Rightarrow> CustomerState \<Rightarrow> BookAppointmentRequest" where
  "bookingRequest env st =
     \<lparr>bar_providerId = selectedProvider st,
      bar_appointmentDate = selectedDate st,
      bar_startTime = formatTimeTo24Hour env (selectedTimeSlot st),
      bar_serviceDescription =
        (if serviceDescription st = [] then None else Some (serviceDescription st))\<rparr>"

definition successMessage :: "jsenv \<Rightarrow> CustomerState \<Rightarrow> string" where
  "successMessage env st =
     (let timeDisplay =
            (case find (\<lambda>s. ts_startTime s = selectedTimeSlot st) (timeSlots st) of
               Some selectedSlot \<Rightarrow>
                 formatTime env (ts_startTime selectedSlot) @ '' - ''
                   @ formatTime env (ts_endTime selectedSlot)
             | None \<Rightarrow> formatTime env (selectedTimeSlot st))
      in ''Appointment booked successfully! '' @ formatDate env (selectedDate st)
           @ '' at '' @ timeDisplay)"

definition isSlotTaken :: "string \<Rightarrow> bool" where
  "isSlotTaken errorMessage =
     (str_includes errorMessage ''Unique constraint'' \<or> str_includes errorMessage ''already booked'')"

definition bookingErrorMessage :: "thrown \<Rightarrow> string" where
  "bookingErrorMessage error =
     (case error of ErrorObj message \<Rightarrow> message | NonError \<Rightarrow> ''Failed to book appointment'')"

definition handleBookAppointment ::
  "jsenv \<Rightarrow> (thrown + json) \<Rightarrow> (thrown + TimeSlot list) \<Rightarrow> CustomerState \<Rightarrow> CustomerState" where
  "handleBookAppointment env bookOutcome slotsOutcome st =
     (if selectedProvider st = [] \<or> selectedDate st = [] \<or> selectedTimeSlot st = []
      then raise_toast (ToastError ''Please complete all selections'') st
      else
        (let st1 = st\<lparr>isBooking := True\<rparr>;
             st2 = issue (BookAppointment (bookingRequest env st)) st1;
             st3 =
               (case bookOutcome of
                  Inr appointment \<Rightarrow>
                    (raise_toast (ToastSuccess (successMessage env st)) st2)
                      \<lparr>selectedProviderType := [], selectedProvider := [], selectedDate := [],
                       selectedTimeSlot := [], serviceDescription := [], providers := [],
                       availableDates := [], timeSlots := []\<rparr>
                | Inl error \<Rightarrow>
                    (let errorMessage = bookingErrorMessage error
                     in if isSlotTaken errorMessage
                        then
                          (let st' = raise_toast (ToastError
                                 ''This time slot is no longer available. Please select another slot.'') st2
                           in if selectedProvider st \<noteq> [] \<and> selectedDate st \<noteq> []
                              then loadTimeSlots slotsOutcome (selectedProvider st) (selectedDate st) st'
                              else st')
                        else raise_toast (ToastError errorMessage) st2))
         in st3\<lparr>isBooking := False\<rparr>))"


section \<open>The service \<open>apiService\<close>\<close>

text \<open>
  What \<open>fetch\<close> resolves to: \<open>response.ok\<close>, \<open>response.status\<close>, and the outcome of
  \<open>response.json()\<close> (\<open>Inl\<close> when the body is not JSON).
\<close>

record http_response =
  hr_ok :: bool
  hr_status :: nat
  hr_json :: "thrown + json"

definition request :: "jsenv \<Rightarrow> (thrown + http_response) \<Rightarrow> thrown + json" where
  "request env fetched =
     (case fetched of
        Inl e \<Rightarrow> Inl e
      | Inr response \<Rightarrow>
          if \<not> hr_ok response
          then
            (let error = (case hr_json response of
                            Inl e \<Rightarrow> JObj [(''message'', JStr ''An error occurred'')]
                          | Inr j \<Rightarrow> j)
             in case getProp env error ''message'' of
                  Inl e \<Rightarrow> Inl e
                | Inr m \<Rightarrow>
                    Inl (ErrorObj
                      (js_ToString env
                         (js_or m (JStr (''HTTP error! status: '' @ showNat (hr_status response)))))))
          else
            (case hr_json response of
               Inl e \<Rightarrow> Inl e
             | Inr json \<Rightarrow>
                 (case getProp env json ''success'' of
                    Inl e \<Rightarrow> Inl e
                  | Inr None \<Rightarrow> Inr json
                  | Inr (Some success) \<Rightarrow>
                      (case getProp env json ''data'' of
                         Inl e \<Rightarrow> Inl e
                       | Inr None \<Rightarrow> Inr json
                       | Inr (Some data) \<Rightarrow> Inr data))))"

definition getAvailableDates :: "jsenv \<Rightarrow> (thrown + http_response) \<Rightarrow> thrown + json" where
  "getAvailableDates env fetched =
     (case request env fetched of
        Inl e \<Rightarrow> Inl e
      | Inr response \<Rightarrow>
          (case getProp env response ''dates'' of
             Inl e \<Rightarrow> Inl e
           | Inr dates \<Rightarrow> Inr (js_or dates (JArr []))))"

definition getAvailableSlots :: "jsenv \<Rightarrow> (thrown + http_response) \<Rightarrow> thrown + json" where
  "getAvailableSlots env fetched =
     (case request env fetched of
        Inl e \<Rightarrow> Inl e
      | Inr response \<Rightarrow>
          (case getProp env response ''slots'' of
             Inl e \<Rightarrow> Inl e
           | Inr slots \<Rightarrow> Inr (js_or slots (JArr []))))"

text \<open>\<open>Array.isArray\<close> on a value read from a response.\<close>

fun isArray :: "json \<Rightarrow> bool" where
  "isArray (JArr xs) = True"
| "isArray v = False"

text \<open>
  The body of the booking request: \<open>JSON.stringify\<close> writes the members of the request
  object and leaves out a member whose value is \<open>undefined\<close>.
\<close>

definition bookAppointmentBody :: "BookAppointmentRequest \<Rightarrow> (string \<times> json) list" where
  "bookAppointmentBody data =
     [(''providerId'', JStr (bar_providerId data)),
      (''appointmentDate'', JStr (bar_appointmentDate data)),
      (''startTime'', JStr (bar_startTime data))]
     @ (case bar_serviceDescription data of
          None \<Rightarrow> []
        | Some d \<Rightarrow> [(''serviceDescription'', JStr d)])"

section \<open>The provider page: the schedule form\<close>

record FormData =
  fd_dayOfWeek :: string
  fd_startTime :: string
  fd_endTime :: string
  fd_slotMetric :: jsnum
  fd_isCount :: bool

text \<open>
  The part of the page's state that \<open>handleSubmit\<close> reads and writes. The two reloads a
  successful submission starts without awaiting them (\<open>loadSchedules\<close>,
  \<open>loadAppointments\<close>) touch none of these fields and are not modelled.
\<close>

record ProviderState = effects +
  formData :: FormData
  isSaving :: bool
  showAddForm :: bool

definition initialFormData :: FormData where
  "initialFormData =
     \<lparr>fd_dayOfWeek = [], fd_startTime = ''09:00'', fd_endTime = ''17:00'',
      fd_slotMetric = Num 30, fd_isCount = False\<rparr>"

definition handleDayOfWeekChange :: "string \<Rightarrow> ProviderState \<Rightarrow> ProviderState" where
  "handleDayOfWeekChange v st = st\<lparr>formData := (formData st)\<lparr>fd_dayOfWeek := v\<rparr>\<rparr>"

definition handleSlotTypeChange :: "string \<Rightarrow> ProviderState \<Rightarrow> ProviderState" where
  "handleSlotTypeChange v st =
     st\<lparr>formData := (formData st)\<lparr>fd_isCount := (v = ''count''),
                                      fd_slotMetric := (if v = ''count'' then Num 50 else Num 30)\<rparr>\<rparr>"

definition handleSlotMetricChange :: "string \<Rightarrow> ProviderState \<Rightarrow> ProviderState" where
  "handleSlotMetricChange v st = st\<lparr>formData := (formData st)\<lparr>fd_slotMetric := parseInt v\<rparr>\<rparr>"

definition scheduleRequest :: "FormData \<Rightarrow> ScheduleConfigRequest" where
  "scheduleRequest fd =
     \<lparr>scr_dayOfWeek = parseInt (fd_dayOfWeek fd),
      scr_startTime = fd_startTime fd,
      scr_endTime = fd_endTime fd,
      scr_slotMetric = fd_slotMetric fd,
      scr_isCount = fd_isCount fd\<rparr>"

definition handleSubmit :: "(thrown + json) \<Rightarrow> ProviderState \<Rightarrow> ProviderState" where
  "handleSubmit outcome st =
     (if fd_dayOfWeek (formData st) = [] \<or> fd_startTime (formData st) = []
         \<or> fd_endTime (formData st) = []
      then raise_toast (ToastError ''Please fill in all required fields'') st
      else if js_le (fd_slotMetric (formData st)) (Num 0)
      then raise_toast (ToastError ''Slot metric must be greater than 0'') st
      else
        (let st1 = st\<lparr>isSaving := True\<rparr>;
             st2 = issue (CreateScheduleConfig (scheduleRequest (formData st))) st1;
             st3 =
               (case outcome of
                  Inr created \<Rightarrow>
                    (raise_toast (ToastSuccess ''Schedule configuration added successfully!'') st2)
                      \<lparr>formData := initialFormData, showAddForm := False\<rparr>
                | Inl error \<Rightarrow>
                    raise_toast (ToastError
                      (case error of
                         ErrorObj message \<Rightarrow> message
                       | NonError \<Rightarrow> ''Failed to add schedule'')) st2)
         in st3\<lparr>isSaving := False\<rparr>))"

section \<open>The wire format of times\<close>

text \<open>
  Modelled from the spec: the \<open>HH:mm\<close> (24-hour) form of section 6 that a booking
  request carries, whose reader is on the backend and missing from the sources. It is
  read as minutes since midnight: two digits, a colon, two digits, the hour below 24 and
  the minute below 60.
\<close>

definition digitVal :: "char \<Rightarrow> nat option" where
  "digitVal c =
     (let n = (of_char c :: nat) in if 48 \<le> n \<and> n \<le> 57 then Some (n - 48) else None)"

definition readHHmm :: "string \<Rightarrow> nat option" where
  "readHHmm s =
     (case s of
        [h1, h2, c, m1, m2] \<Rightarrow>
          (case (digitVal h1, digitVal h2, digitVal m1, digitVal m2) of
             (Some a, Some b, Some x, Some y) \<Rightarrow>
               if c = CHR '':'' \<and> 10 * a + b < 24 \<and> 10 * x + y < 60
               then Some ((10 * a + b) * 60 + (10 * x + y)) else None
           | _ \<Rightarrow> None)
      | _ \<Rightarrow> None)"

section \<open>The availability engine\<close>

text \<open>
  Modelled from the spec: the data model of section 3. The slot generator, the booking
  ledger and the admission controller run on the backend, whose code is missing from the
  sources; the pages only call it. A time of day is a number of minutes since midnight,
  a calendar date a number of days since 1970-01-01 (a Thursday), and \<open>weekday\<close> counts
  from Sunday as 0.
\<close>

datatype SlotMode = TimeDivided | CountBased

record WeeklyScheduleRule =
  rule_providerId :: string
  rule_dayOfWeek :: nat
  rule_startTime :: nat
  rule_endTime :: nat
  rule_slotMode :: SlotMode
  rule_slotMetric :: nat

record TimeWindow =
  tw_providerId :: string
  tw_date :: int
  tw_startTime :: nat
  tw_endTime :: nat
  tw_capacity :: nat

datatype Status = scheduled | cancelled

record Appointment =
  ap_id :: nat
  ap_customerId :: string
  ap_providerId :: string
  ap_appointmentDate :: int
  ap_startTime :: nat
  ap_endTime :: nat
  ap_status :: Status
  ap_serviceDescription :: "string option"

datatype BookingError = NotFound | OutOfWindow | OutOfHorizon | SlotFull | ValidationError

definition clock :: "nat \<Rightarrow> nat \<Rightarrow> nat" where
  "clock h m = h * 60 + m"

definition weekday :: "int \<Rightarrow> nat" where
  "weekday d = nat ((d + 4) mod 7)"

text \<open>
  Modelled from the spec: the time-divided expansion of section 4.1, missing from the
  sources. Starting at the rule's start, windows of \<open>metric\<close> minutes follow one another
  as long as the next one does not end after the rule's end. A metric of 0, which the
  data model excludes, yields no window.
\<close>

function timeDivided :: "nat \<Rightarrow> nat \<Rightarrow> nat \<Rightarrow> (nat \<times> nat) list" where
  "timeDivided metric s e =
     (if 0 < metric \<and> s + metric \<le> e
      then (s, s + metric) # timeDivided metric (s + metric) e
      else [])"
  by pat_completeness auto
termination
  by (relation "measure (\<lambda>(metric, s, e). e - s)") auto

declare timeDivided.simps [simp del]

text \<open>
  Modelled from the spec: the Slot Generator of section 4.1, missing from the sources.
  A time-divided rule gives the windows above, each of capacity 1; a count-based rule
  gives one window over the whole range, its capacity the rule's metric.
\<close>

definition generate :: "WeeklyScheduleRule \<Rightarrow> int \<Rightarrow> TimeWindow list" where
  "generate rule date =
     (case rule_slotMode rule of
        TimeDivided \<Rightarrow>
          map (\<lambda>(s, e). \<lparr>tw_providerId = rule_providerId rule, tw_date = date,
                          tw_startTime = s, tw_endTime = e, tw_capacity = 1\<rparr>)
              (timeDivided (rule_slotMetric rule) (rule_startTime rule) (rule_endTime rule))
      | CountBased \<Rightarrow>
          [\<lparr>tw_providerId = rule_providerId rule, tw_date = date,
            tw_startTime = rule_startTime rule, tw_endTime = rule_endTime rule,
            tw_capacity = rule_slotMetric rule\<rparr>])"

text \<open>
  Modelled from the spec: the windows of a provider on a date (sections 4.1 and 4.3),
  missing from the sources. Every rule of the provider for the date's weekday generates
  its windows; the result is their concatenation sorted by start, then by end, nothing
  merged.
\<close>

definition windowsOn :: "WeeklyScheduleRule list \<Rightarrow> string \<Rightarrow> int \<Rightarrow> TimeWindow list" where
  "windowsOn rules providerId date =
     sort_key (\<lambda>w. (tw_startTime w, tw_endTime w))
       (concat (map (\<lambda>r. generate r date)
          (filter (\<lambda>r. rule_providerId r = providerId \<and> rule_dayOfWeek r = weekday date)
             rules)))"

text \<open>
  Modelled from the spec: the Booking Ledger of section 4.2, missing from the sources.
  The ledger is the list of appointments, none ever removed.
\<close>

definition occupies :: "string \<Rightarrow> int \<Rightarrow> nat \<Rightarrow> nat \<Rightarrow> Appointment \<Rightarrow> bool" where
  "occupies providerId date s e a =
     (ap_providerId a = providerId \<and> ap_appointmentDate a = date \<and> ap_startTime a = s
      \<and> ap_endTime a = e \<and> ap_status a = scheduled)"

definition countScheduled :: "Appointment list \<Rightarrow> string \<Rightarrow> int \<Rightarrow> nat \<Rightarrow> nat \<Rightarrow> nat" where
  "countScheduled ledger providerId date s e =
     length (filter (occupies providerId date s e) ledger)"

definition remaining :: "Appointment list \<Rightarrow> TimeWindow \<Rightarrow> int" where
  "remaining ledger w =
     int (tw_capacity w)
       - int (countScheduled ledger (tw_providerId w) (tw_date w) (tw_startTime w)
                (tw_endTime w))"

text \<open>
  Modelled from the spec: steps 1 and 2 of the Booking Admission Controller (section
  4.4), missing from the sources. The windows covering the start time are looked up among
  the freshly generated ones; none gives \<open>NotFound\<close>, and none that starts exactly at the
  start time gives \<open>OutOfWindow\<close>.
\<close>

definition resolve ::
  "WeeklyScheduleRule list \<Rightarrow> string \<Rightarrow> int \<Rightarrow> nat \<Rightarrow> BookingError + TimeWindow" where
  "resolve rules providerId date startTime =
     (let covering = filter (\<lambda>w. tw_startTime w \<le> startTime \<and> startTime < tw_endTime w)
                       (windowsOn rules providerId date)
      in if covering = [] then Inl NotFound
         else (case find (\<lambda>w. tw_startTime w = startTime) covering of
                 None \<Rightarrow> Inl OutOfWindow
               | Some w \<Rightarrow> Inr w))"

text \<open>
  Modelled from the spec: the operation \<open>book\<close> of section 4.4, missing from the sources,
  one atomic step on the ledger. \<open>limit\<close> is the provider's \<open>bookingLimitDays\<close>, \<open>today\<close>
  the current date, \<open>customerId\<close> the authenticated caller. The operation takes no end
  time: the appointment's end is the resolved window's.
\<close>

definition book ::
  "WeeklyScheduleRule list \<Rightarrow> nat \<Rightarrow> int \<Rightarrow> string \<Rightarrow> string \<Rightarrow> int \<Rightarrow> nat
     \<Rightarrow> string option \<Rightarrow> Appointment list \<Rightarrow> BookingError + (Appointment \<times> Appointment list)"
  where
  "book rules limit today customerId providerId date startTime description ledger =
     (case resolve rules providerId date startTime of
        Inl e \<Rightarrow> Inl e
      | Inr w \<Rightarrow>
          if date < today \<or> today + int limit < date then Inl OutOfHorizon
          else if remaining ledger w \<le> 0 then Inl SlotFull
          else
            (let a = \<lparr>ap_id = length ledger, ap_customerId = customerId,
                      ap_providerId = providerId, ap_appointmentDate = date,
                      ap_startTime = tw_startTime w, ap_endTime = tw_endTime w,
                      ap_status = scheduled, ap_serviceDescription = description\<rparr>
             in Inr (a, ledger @ [a])))"

text \<open>
  Modelled from the spec: the boundary of the admission controller (sections 4.4, 6 and
  7), missing from the sources. The request's \<open>startTime\<close> is read as \<open>HH:mm\<close> and its date
  by \<open>readDate\<close> (the reading of \<open>YYYY-MM-DD\<close> as a day number, a parameter); a request
  that cannot be read is a \<open>ValidationError\<close>.
\<close>

definition admit ::
  "(string \<Rightarrow> int option) \<Rightarrow> WeeklyScheduleRule list \<Rightarrow> nat \<Rightarrow> int \<Rightarrow> string
     \<Rightarrow> BookAppointmentRequest \<Rightarrow> Appointment list
     \<Rightarrow> BookingError + (Appointment \<times> Appointment list)" where
  "admit readDate rules limit today customerId req ledger =
     (case (readDate (bar_appointmentDate req), readHHmm (bar_startTime req)) of
        (Some date, Some startTime) \<Rightarrow>
          book rules limit today customerId (bar_providerId req) date startTime
            (bar_serviceDescription req) ledger
      | _ \<Rightarrow> Inl ValidationError)"

text \<open>
  Modelled from the spec: concurrent calls of \<open>book\<close> for one window (section 5), missing
  from the sources. Admission is atomic per window, so the calls take effect one after
  another in some order; \<open>customers\<close> lists the callers in that order. The result pairs
  each caller's outcome, in the same order, with the final ledger.
\<close>

fun bookAll ::
  "WeeklyScheduleRule list \<Rightarrow> nat \<Rightarrow> int \<Rightarrow> string \<Rightarrow> int \<Rightarrow> nat \<Rightarrow> string list
     \<Rightarrow> Appointment list \<Rightarrow> (BookingError + Appointment) list \<times> Appointment list" where
  "bookAll rules limit today providerId date startTime [] ledger = ([], ledger)"
| "bookAll rules limit today providerId date startTime (c # cs) ledger =
     (case book rules limit today c providerId date startTime None ledger of
        Inl e \<Rightarrow>
          (let (rs, final) = bookAll rules limit today providerId date startTime cs ledger
           in (Inl e # rs, final))
      | Inr (a, ledger') \<Rightarrow>
          (let (rs, final) = bookAll rules limit today providerId date startTime cs ledger'
           in (Inr a # rs, final)))"

text \<open>
  Modelled from the spec: the tallies of section 8's race property, how many of the
  outcomes are appointments and how many are a given failure.
\<close>

definition succeeded :: "(BookingError + Appointment) list \<Rightarrow> nat" where
  "succeeded rs = length (filter (\<lambda>r. \<not> isl r) rs)"

definition failedWith :: "BookingError \<Rightarrow> (BookingError + Appointment) list \<Rightarrow> nat" where
  "failedWith e rs = length (filter (\<lambda>r. r = Inl e) rs)"

section \<open>Concrete inputs\<close>

text \<open>
  A browser five and a half hours ahead of UTC; 1705309200000 is 2024-01-15T09:00:00Z
  and 1705276800000 is the midnight before it.
\<close>

definition example_env :: jsenv where
  "example_env =
     \<lparr>dateParse = (\<lambda>s. if s = ''2024-01-15T09:00:00.000Z'' then Some 1705309200000
                        else if s = ''2024-01-15'' then Some 1705276800000 else None),
      localTZA = (\<lambda>t. 19800000),
      tzName = (\<lambda>t. '' (India Standard Time)''),
      localeTime = (\<lambda>d. if d = Some 1705309200000 then ''02:30 PM'' else ''Invalid Date''),
      localeDate = (\<lambda>d. if d = Some 1705276800000 then ''Mon, Jan 15, 2024''
                         else ''Invalid Date''),
      nullRead = (\<lambda>k. ErrorObj (''Cannot read properties of null (reading '' @ k @ '')'')),
      stringOf = (\<lambda>v. ''[object Object]'')\<rparr>"

definition example_slot :: TimeSlot where
  "example_slot =
     \<lparr>ts_startTime = ''2024-01-15T09:00:00.000Z'', ts_endTime = ''2024-01-15T09:30:00.000Z'',
      ts_isAvailable = True, ts_capacity = Some (Num 1), ts_bookedCount = Some (Num 0),
      ts_remainingSlots = Some (Num 1)\<rparr>"

definition example_state :: CustomerState where
  "example_state =
     \<lparr>toasts = [], calls = [],
      providers = [], availableDates = [], timeSlots = [example_slot],
      selectedProviderType = ''doctor'', selectedProvider = ''p1'',
      selectedDate = ''2024-01-15'', selectedTimeSlot = ''2024-01-15T09:00:00.000Z'',
      serviceDescription = [],
      isLoadingProviders = False, isLoadingDates = False, isLoadingSlots = False,
      isBooking = False\<rparr>"

text \<open>The schedule form as the page first shows it, with nothing issued yet.\<close>

definition initialProviderState :: ProviderState where
  "initialProviderState =
     \<lparr>toasts = [], calls = [], formData = initialFormData, isSaving = False,
      showAddForm = True\<rparr>"

text \<open>Two ways to clear or keep the number field before submitting on a Monday.\<close>

definition cleared_metric_form :: ProviderState where
  "cleared_metric_form =
     handleSlotMetricChange [] (handleDayOfWeekChange ''1'' initialProviderState)"

definition zero_metric_form :: ProviderState where
  "zero_metric_form =
     handleSlotMetricChange ''0'' (handleDayOfWeekChange ''1'' initialProviderState)"

text \<open>Responses with status 200: a payload without \<open>dates\<close>, and one whose \<open>slots\<close> is null.\<close>

definition response_without_dates :: "thrown + http_response" where
  "response_without_dates =
     Inr \<lparr>hr_ok = True, hr_status = 200,
          hr_json = Inr (JObj [(''success'', JBool True), (''data'', JObj [])])\<rparr>"

text \<open>A response with status 200 whose \<open>dates\<close> and \<open>slots\<close> are the number 5.\<close>

definition response_numeric_fields :: "thrown + http_response" where
  "response_numeric_fields =
     Inr \<lparr>hr_ok = True, hr_status = 200,
          hr_json = Inr (JObj [(''dates'', JNum (Num 5)), (''slots'', JNum (Num 5))])\<rparr>"

definition response_null_slots :: "thrown + http_response" where
  "response_null_slots =
     Inr \<lparr>hr_ok = True, hr_status = 200,
          hr_json = Inr (JObj [(''slots'', JNull)])\<rparr>"

text \<open>
  The rule of the specification's example: Mondays from 09:00 to 17:10 in slots of 30
  minutes. Day 19737 is Monday 2024-01-15.
\<close>

definition example_rule :: WeeklyScheduleRule where
  "example_rule =
     \<lparr>rule_providerId = ''p1'', rule_dayOfWeek = 1, rule_startTime = clock 9 0,
      rule_endTime = clock 17 10, rule_slotMode = TimeDivided, rule_slotMetric = 30\<rparr>"

definition example_count_rule :: WeeklyScheduleRule where
  "example_count_rule =
     \<lparr>rule_providerId = ''p2'', rule_dayOfWeek = 1, rule_startTime = clock 9 0,
      rule_endTime = clock 17 0, rule_slotMode = CountBased, rule_slotMetric = 2\<rparr>"

definition example_readDate :: "string \<Rightarrow> int option" where
  "example_readDate s = (if s = ''2024-01-15'' then Some 19737 else None)"
section \<open>Listing dates and slots\<close>

text \<open>
  C1. When the available-dates query returns a list, the dates held for the date select,
  and the options rendered from them, are exactly the returned entries whose
  \<open>isAvailable\<close> is true, in the order they were returned.
\<close>

theorem loadAvailableDates_keeps_available:
  "availableDates (loadAvailableDates (Inr dates) providerId st) = filter ad_isAvailable dates
   \<and> dateSelectItems (loadAvailableDates (Inr dates) providerId st)
       = map ad_date (filter ad_isAvailable dates)"
  by (simp add: loadAvailableDates_def dateSelectItems_def issue_def raise_toast_def Let_def)


text \<open>
  C2. When the available-slots query returns a list, the page stores every returned
  window, unavailable ones included, while the options of the time-slot select are exactly
  the windows whose \<open>isAvailable\<close> is true, in the order they were returned.
\<close>

theorem loadTimeSlots_stores_all_offers_available:
  "timeSlots (loadTimeSlots (Inr slots) providerId date st) = slots
   \<and> selectableSlots (loadTimeSlots (Inr slots) providerId date st)
       = filter ts_isAvailable slots
   \<and> slotSelectItems (loadTimeSlots (Inr slots) providerId date st)
       = map ts_startTime (filter ts_isAvailable slots)"
  by (simp add: loadTimeSlots_def selectableSlots_def slotSelectItems_def issue_def
        raise_toast_def Let_def)

section \<open>Reducing an instant to \<open>HH:mm\<close>\<close>

lemma digitVal_digitChar: "digitVal (digitChar n) = Some (n mod 10)"
proof -
  have "n mod 10 < 10" by simp
  then have "n mod 10 = 0 \<or> n mod 10 = 1 \<or> n mod 10 = 2 \<or> n mod 10 = 3 \<or> n mod 10 = 4
     \<or> n mod 10 = 5 \<or> n mod 10 = 6 \<or> n mod 10 = 7 \<or> n mod 10 = 8 \<or> n mod 10 = 9"
    by arith
  then show ?thesis
    by (elim disjE) (simp_all add: digitChar_def digitVal_def)
qed

lemma two_digits:
  assumes "n < 100"
  shows "\<exists>a b. digitVal (digitChar (n div 10)) = Some a \<and> digitVal (digitChar n) = Some b
           \<and> 10 * a + b = n"
proof -
  have "(n div 10) mod 10 = n div 10" using assms by simp
  then have "digitVal (digitChar (n div 10)) = Some (n div 10)"
    using digitVal_digitChar [of "n div 10"] by simp
  moreover have "digitVal (digitChar n) = Some (n mod 10)"
    by (rule digitVal_digitChar)
  moreover have "10 * (n div 10) + n mod 10 = n" by simp
  ultimately show ?thesis by blast
qed

lemma readHHmm_digits:
  assumes "digitVal h1 = Some a" and "digitVal h2 = Some b"
      and "digitVal m1 = Some x" and "digitVal m2 = Some y"
      and "10 * a + b = h" and "10 * x + y = m" and "h < 24" and "m < 60"
  shows "readHHmm [h1, h2, CHR '':'', m1, m2] = Some (h * 60 + m)"
  unfolding readHHmm_def using assms by simp

lemma readHHmm_pad2:
  assumes "h < 24" and "m < 60"
  shows "readHHmm (pad2 h @ '':'' @ pad2 m) = Some (h * 60 + m)"
proof -
  from assms(1) have "h < 100" by simp
  from two_digits [OF this] obtain a b where
    h: "digitVal (digitChar (h div 10)) = Some a" "digitVal (digitChar h) = Some b"
      "10 * a + b = h"
    by blast
  from assms(2) have "m < 100" by simp
  from two_digits [OF this] obtain x y where
    m: "digitVal (digitChar (m div 10)) = Some x" "digitVal (digitChar m) = Some y"
      "10 * x + y = m"
    by blast
  have "pad2 h @ '':'' @ pad2 m
      = [digitChar (h div 10), digitChar h, CHR '':'', digitChar (m div 10), digitChar m]"
    by (simp add: pad2_def)
  then show ?thesis
    using readHHmm_digits [OF h(1,2) m(1,2) h(3) m(3) assms] by simp
qed

lemma HourFromTime_lt: "HourFromTime t < 24"
  by (simp add: HourFromTime_def nat_less_iff)

lemma MinFromTime_lt: "MinFromTime t < 60"
  by (simp add: MinFromTime_def nat_less_iff)

lemma minute_of_day:
  "HourFromTime t * 60 + MinFromTime t = nat ((t div msPerMinute) mod 1440)"
proof -
  define q where "q = t div 60000"
  have a: "t div 3600000 = q div 60" unfolding q_def by (simp add: div_mult2_eq)
  have b: "q mod 1440 = 60 * (q div 60 mod 24) + q mod 60"
    using zmod_zmult2_eq [of 24 q 60] by simp
  have c: "0 \<le> q div 60 mod 24" "0 \<le> q mod 60" by simp_all
  show ?thesis
    unfolding HourFromTime_def MinFromTime_def msPerHour_def msPerMinute_def a
      q_def [symmetric] b
    using c by (simp add: nat_add_distrib nat_mult_distrib)
qed

lemma formatTimeTo24Hour_valid:
  assumes "dateParse env s = Some tv"
  shows "formatTimeTo24Hour env s
           = pad2 (HourFromTime (LocalTime env tv)) @ '':''
               @ pad2 (MinFromTime (LocalTime env tv))"
  using assms
  by (simp add: formatTimeTo24Hour_def toTimeString_def TimeString_def slice0_def pad2_def)

lemma formatTimeTo24Hour_invalid:
  "dateParse env s = None \<Longrightarrow> formatTimeTo24Hour env s = ''Inval''"
  by (simp add: formatTimeTo24Hour_def toTimeString_def slice0_def)

section \<open>What \<open>handleBookAppointment\<close> issues\<close>

lemma bookingCalls_append: "bookingCalls (xs @ ys) = bookingCalls xs @ bookingCalls ys"
  by (induction xs rule: bookingCalls.induct) simp_all

lemma slotQueries_append: "slotQueries (xs @ ys) = slotQueries xs @ slotQueries ys"
  by (induction xs rule: slotQueries.induct) simp_all

lemma scheduleCalls_append: "scheduleCalls (xs @ ys) = scheduleCalls xs @ scheduleCalls ys"
  by (induction xs rule: scheduleCalls.induct) simp_all

lemma calls_loadTimeSlots:
  "calls (loadTimeSlots outcome p d st)
     = calls st @ [GetAvailableSlots \<lparr>asr_providerId = p, asr_date = d\<rparr>]"
  by (simp add: loadTimeSlots_def issue_def raise_toast_def Let_def split: sum.splits)

lemma handleBookAppointment_incomplete:
  assumes "selectedProvider st = [] \<or> selectedDate st = [] \<or> selectedTimeSlot st = []"
  shows "handleBookAppointment env bookOutcome slotsOutcome st
           = raise_toast (ToastError ''Please complete all selections'') st"
  using assms by (auto simp: handleBookAppointment_def)

lemma calls_handleBookAppointment:
  assumes "selectedProvider st \<noteq> []" "selectedDate st \<noteq> []" "selectedTimeSlot st \<noteq> []"
  shows "calls (handleBookAppointment env bookOutcome slotsOutcome st)
     = calls st @ BookAppointment (bookingRequest env st) #
        (case bookOutcome of
           Inr a \<Rightarrow> []
         | Inl e \<Rightarrow>
             if isSlotTaken (bookingErrorMessage e)
             then [GetAvailableSlots \<lparr>asr_providerId = selectedProvider st,
                                      asr_date = selectedDate st\<rparr>]
             else [])"
  using assms
  by (simp add: handleBookAppointment_def calls_loadTimeSlots issue_def raise_toast_def Let_def
        split: sum.splits)

text \<open>
  C3. When the selected slot's \<open>startTime\<close> parses to an instant \<open>tv\<close>, the booking request
  the page issues carries as \<open>startTime\<close> the two-digit hour and minute of \<open>tv\<close> in the
  browser's local time, separated by a colon: a well-formed 24-hour \<open>HH:mm\<close> that reads
  back as the local minute of the day of that instant.
\<close>

theorem booking_request_startTime_is_HHmm:
  assumes "selectedProvider st \<noteq> []" and "selectedDate st \<noteq> []"
      and "selectedTimeSlot st \<noteq> []"
      and "dateParse env (selectedTimeSlot st) = Some tv"
  shows "\<exists>req. bookingCalls (calls (handleBookAppointment env bookOutcome slotsOutcome st))
               = bookingCalls (calls st) @ [req]
           \<and> bar_startTime req
               = pad2 (HourFromTime (LocalTime env tv)) @ '':''
                   @ pad2 (MinFromTime (LocalTime env tv))
           \<and> readHHmm (bar_startTime req)
               = Some (nat ((LocalTime env tv div msPerMinute) mod 1440))"
proof -
  let ?req = "bookingRequest env st"
  have s: "bar_startTime ?req
      = pad2 (HourFromTime (LocalTime env tv)) @ '':'' @ pad2 (MinFromTime (LocalTime env tv))"
    using assms(4) by (simp add: bookingRequest_def formatTimeTo24Hour_valid)
  have r: "readHHmm (bar_startTime ?req)
      = Some (nat ((LocalTime env tv div msPerMinute) mod 1440))"
    unfolding s using readHHmm_pad2 [OF HourFromTime_lt MinFromTime_lt] minute_of_day by simp
  have c: "bookingCalls (calls (handleBookAppointment env bookOutcome slotsOutcome st))
             = bookingCalls (calls st) @ [?req]"
    using assms(1-3)
    by (simp add: calls_handleBookAppointment bookingCalls_append split: sum.splits)
  from c s r show ?thesis by blast
qed

lemma example_state_selected:
  "selectedProvider example_state \<noteq> [] \<and> selectedDate example_state \<noteq> []
   \<and> selectedTimeSlot example_state \<noteq> []"
  by (simp add: example_state_def)

lemma example_env_parse:
  "dateParse example_env (selectedTimeSlot example_state) = Some 1705309200000"
  by (simp add: example_env_def example_state_def)

theorem booking_request_startTime_is_HHmm_witness:
  "\<exists>req. bookingCalls (calls (handleBookAppointment example_env (Inr JNull) (Inl NonError)
              example_state)) = [req]
     \<and> bar_startTime req = ''14:30'' \<and> readHHmm (bar_startTime req) = Some 870"
proof -
  have sel: "selectedProvider example_state \<noteq> []" "selectedDate example_state \<noteq> []"
    "selectedTimeSlot example_state \<noteq> []"
    using example_state_selected by simp_all
  have lt: "LocalTime example_env 1705309200000 = 1705329000000"
    by (simp add: LocalTime_def example_env_def)
  have hm: "pad2 (HourFromTime 1705329000000) @ '':'' @ pad2 (MinFromTime 1705329000000)
      = ''14:30''"
    by (simp add: pad2_def HourFromTime_def MinFromTime_def msPerHour_def msPerMinute_def
          digitChar_def)
  have md: "nat ((1705329000000 div msPerMinute) mod 1440) = 870"
    by (simp add: msPerMinute_def)
  have c0: "bookingCalls (calls example_state) = []"
    by (simp add: example_state_def)
  show ?thesis
    using booking_request_startTime_is_HHmm [OF sel example_env_parse,
        of "Inr JNull" "Inl NonError"]
    unfolding lt hm md c0 by simp
qed

section \<open>After the booking request settles\<close>

text \<open>
  C9. After a booking request that succeeds, the page has cleared the selected provider
  type, provider, date, time slot and the service description, and has emptied the loaded
  provider, date and slot lists; the request was issued exactly once.
\<close>

theorem booking_success_resets_selection:
  assumes "selectedProvider st \<noteq> []" and "selectedDate st \<noteq> []"
      and "selectedTimeSlot st \<noteq> []"
  shows "selectedProviderType (handleBookAppointment env (Inr appointment) slotsOutcome st) = []
     \<and> selectedProvider (handleBookAppointment env (Inr appointment) slotsOutcome st) = []
     \<and> selectedDate (handleBookAppointment env (Inr appointment) slotsOutcome st) = []
     \<and> selectedTimeSlot (handleBookAppointment env (Inr appointment) slotsOutcome st) = []
     \<and> serviceDescription (handleBookAppointment env (Inr appointment) slotsOutcome st) = []
     \<and> providers (handleBookAppointment env (Inr appointment) slotsOutcome st) = []
     \<and> availableDates (handleBookAppointment env (Inr appointment) slotsOutcome st) = []
     \<and> timeSlots (handleBookAppointment env (Inr appointment) slotsOutcome st) = []
     \<and> calls (handleBookAppointment env (Inr appointment) slotsOutcome st)
         = calls st @ [BookAppointment (bookingRequest env st)]"
  using assms
  by (simp add: handleBookAppointment_def issue_def raise_toast_def Let_def)

theorem booking_success_resets_selection_witness:
  "selectedProviderType example_state = ''doctor''
   \<and> timeSlots example_state = [example_slot]
   \<and> selectedProviderType (handleBookAppointment example_env (Inr JNull) (Inl NonError)
        example_state) = []
   \<and> selectedProvider (handleBookAppointment example_env (Inr JNull) (Inl NonError)
        example_state) = []
   \<and> selectedDate (handleBookAppointment example_env (Inr JNull) (Inl NonError)
        example_state) = []
   \<and> selectedTimeSlot (handleBookAppointment example_env (Inr JNull) (Inl NonError)
        example_state) = []
   \<and> timeSlots (handleBookAppointment example_env (Inr JNull) (Inl NonError)
        example_state) = []"
proof -
  have sel: "selectedProvider example_state \<noteq> []" "selectedDate example_state \<noteq> []"
    "selectedTimeSlot example_state \<noteq> []"
    using example_state_selected by simp_all
  have before: "selectedProviderType example_state = ''doctor''"
    "timeSlots example_state = [example_slot]"
    by (simp_all add: example_state_def)
  show ?thesis
    using booking_success_resets_selection [OF sel, of example_env JNull "Inl NonError"] before
    by simp
qed

text \<open>
  A failed booking leaves the provider type, provider, date and description as they were,
  whatever the error.
\<close>

lemma booking_failure_keeps_provider_and_date:
  assumes "selectedProvider st \<noteq> []" and "selectedDate st \<noteq> []"
      and "selectedTimeSlot st \<noteq> []"
  shows "selectedProviderType (handleBookAppointment env (Inl error) slotsOutcome st)
           = selectedProviderType st
     \<and> selectedProvider (handleBookAppointment env (Inl error) slotsOutcome st)
           = selectedProvider st
     \<and> selectedDate (handleBookAppointment env (Inl error) slotsOutcome st) = selectedDate st
     \<and> serviceDescription (handleBookAppointment env (Inl error) slotsOutcome st)
           = serviceDescription st"
  using assms
  by (simp add: handleBookAppointment_def loadTimeSlots_def issue_def raise_toast_def Let_def
        split: sum.splits)

lemma booking_conflict_clears_slot:
  assumes "selectedProvider st \<noteq> []" and "selectedDate st \<noteq> []"
      and "selectedTimeSlot st \<noteq> []"
      and "isSlotTaken (bookingErrorMessage error)"
  shows "selectedTimeSlot (handleBookAppointment env (Inl error) slotsOutcome st) = []
     \<and> timeSlots (handleBookAppointment env (Inl error) slotsOutcome st)
           = (case slotsOutcome of Inl e \<Rightarrow> [] | Inr slots \<Rightarrow> slots)"
  using assms
  by (simp add: handleBookAppointment_def loadTimeSlots_def issue_def raise_toast_def Let_def
        split: sum.splits)

lemma booking_other_failure_keeps_slot:
  assumes "selectedProvider st \<noteq> []" and "selectedDate st \<noteq> []"
      and "selectedTimeSlot st \<noteq> []"
      and "\<not> isSlotTaken (bookingErrorMessage error)"
  shows "selectedTimeSlot (handleBookAppointment env (Inl error) slotsOutcome st)
           = selectedTimeSlot st
     \<and> timeSlots (handleBookAppointment env (Inl error) slotsOutcome st) = timeSlots st"
  using assms
  by (simp add: handleBookAppointment_def issue_def raise_toast_def Let_def)

text \<open>
  C5, as the claim states it, fails: after a booking that fails because the slot is taken,
  the selected time slot is no longer the one the user chose.
\<close>

theorem booking_conflict_changes_slot_selection:
  "isSlotTaken (bookingErrorMessage (ErrorObj ''Time slot already booked''))
   \<and> selectedTimeSlot example_state = ''2024-01-15T09:00:00.000Z''
   \<and> selectedTimeSlot (handleBookAppointment example_env
        (Inl (ErrorObj ''Time slot already booked'')) (Inr [example_slot]) example_state) = []"
  by (simp add: handleBookAppointment_def loadTimeSlots_def issue_def raise_toast_def Let_def
        isSlotTaken_def bookingErrorMessage_def example_state_def)

text \<open>
  C5, amended. When a booking attempt fails with an error whose message contains
  \<open>Unique constraint\<close> or \<open>already booked\<close>, the page issues, right after the failed
  request, one time-slot query for the same provider and date, keeps the provider and
  date selections, clears the selected time slot and replaces the slot list by the
  query's result (the empty list if the query fails). After any other failure it issues
  no query and leaves provider, date, slot selection and slot list as they were.
\<close>

theorem booking_failure_requery:
  assumes "selectedProvider st \<noteq> []" and "selectedDate st \<noteq> []"
      and "selectedTimeSlot st \<noteq> []"
  shows "selectedProvider (handleBookAppointment env (Inl error) slotsOutcome st)
           = selectedProvider st
     \<and> selectedDate (handleBookAppointment env (Inl error) slotsOutcome st) = selectedDate st
     \<and> (if isSlotTaken (bookingErrorMessage error)
        then calls (handleBookAppointment env (Inl error) slotsOutcome st)
               = calls st @ [BookAppointment (bookingRequest env st),
                    GetAvailableSlots \<lparr>asr_providerId = selectedProvider st,
                                       asr_date = selectedDate st\<rparr>]
           \<and> selectedTimeSlot (handleBookAppointment env (Inl error) slotsOutcome st) = []
           \<and> timeSlots (handleBookAppointment env (Inl error) slotsOutcome st)
               = (case slotsOutcome of Inl e \<Rightarrow> [] | Inr slots \<Rightarrow> slots)
        else calls (handleBookAppointment env (Inl error) slotsOutcome st)
               = calls st @ [BookAppointment (bookingRequest env st)]
           \<and> selectedTimeSlot (handleBookAppointment env (Inl error) slotsOutcome st)
               = selectedTimeSlot st
           \<and> timeSlots (handleBookAppointment env (Inl error) slotsOutcome st)
               = timeSlots st)"
proof (cases "isSlotTaken (bookingErrorMessage error)")
  case True
  then show ?thesis
    using booking_failure_keeps_provider_and_date [OF assms]
      booking_conflict_clears_slot [OF assms True]
      calls_handleBookAppointment [OF assms, of env "Inl error" slotsOutcome]
    by simp
next
  case False
  then show ?thesis
    using booking_failure_keeps_provider_and_date [OF assms]
      booking_other_failure_keeps_slot [OF assms False]
      calls_handleBookAppointment [OF assms, of env "Inl error" slotsOutcome]
    by simp
qed

lemma slot_taken_examples:
  "isSlotTaken (bookingErrorMessage (ErrorObj ''Time slot already booked''))"
  "\<not> isSlotTaken (bookingErrorMessage (ErrorObj ''Provider not found''))"
  "\<not> isSlotTaken (bookingErrorMessage NonError)"
  by (simp_all add: isSlotTaken_def bookingErrorMessage_def)

theorem booking_failure_requery_witness:
  "slotQueries (calls (handleBookAppointment example_env
       (Inl (ErrorObj ''Time slot already booked'')) (Inr []) example_state))
     = [\<lparr>asr_providerId = ''p1'', asr_date = ''2024-01-15''\<rparr>]
   \<and> selectedProvider (handleBookAppointment example_env
       (Inl (ErrorObj ''Time slot already booked'')) (Inr []) example_state) = ''p1''
   \<and> slotQueries (calls (handleBookAppointment example_env
       (Inl (ErrorObj ''Provider not found'')) (Inr []) example_state)) = []
   \<and> selectedTimeSlot (handleBookAppointment example_env
       (Inl (ErrorObj ''Provider not found'')) (Inr []) example_state)
     = ''2024-01-15T09:00:00.000Z''"
proof -
  have sel: "selectedProvider example_state \<noteq> []" "selectedDate example_state \<noteq> []"
    "selectedTimeSlot example_state \<noteq> []"
    using example_state_selected by simp_all
  have st: "calls example_state = []" "selectedProvider example_state = ''p1''"
    "selectedDate example_state = ''2024-01-15''"
    "selectedTimeSlot example_state = ''2024-01-15T09:00:00.000Z''"
    by (simp_all add: example_state_def)
  have taken: "calls (handleBookAppointment example_env
        (Inl (ErrorObj ''Time slot already booked'')) (Inr []) example_state)
      = [BookAppointment (bookingRequest example_env example_state),
         GetAvailableSlots \<lparr>asr_providerId = ''p1'', asr_date = ''2024-01-15''\<rparr>]
    \<and> selectedProvider (handleBookAppointment example_env
        (Inl (ErrorObj ''Time slot already booked'')) (Inr []) example_state) = ''p1''"
    using booking_failure_requery [OF sel, of example_env
        "ErrorObj ''Time slot already booked''" "Inr []"] slot_taken_examples(1)
    by (simp add: st)
  have other: "calls (handleBookAppointment example_env
        (Inl (ErrorObj ''Provider not found'')) (Inr []) example_state)
      = [BookAppointment (bookingRequest example_env example_state)]
    \<and> selectedTimeSlot (handleBookAppointment example_env
        (Inl (ErrorObj ''Provider not found'')) (Inr []) example_state)
      = ''2024-01-15T09:00:00.000Z''"
    using booking_failure_requery [OF sel, of example_env
        "ErrorObj ''Provider not found''" "Inr []"] slot_taken_examples(2)
    by (simp add: st)
  from taken other show ?thesis by simp
qed

section \<open>Submitting the schedule form\<close>

lemma handleSubmit_rejects_nonpositive:
  assumes "js_le (fd_slotMetric (formData st)) (Num 0)"
  shows "calls (handleSubmit outcome st) = calls st
     \<and> formData (handleSubmit outcome st) = formData st
     \<and> isSaving (handleSubmit outcome st) = isSaving st
     \<and> showAddForm (handleSubmit outcome st) = showAddForm st
     \<and> (toasts (handleSubmit outcome st)
            = toasts st @ [ToastError ''Please fill in all required fields'']
        \<or> toasts (handleSubmit outcome st)
            = toasts st @ [ToastError ''Slot metric must be greater than 0''])"
  using assms by (simp add: handleSubmit_def raise_toast_def)

lemma handleSubmit_issues_iff:
  "calls (handleSubmit outcome st)
     = (if fd_dayOfWeek (formData st) \<noteq> [] \<and> fd_startTime (formData st) \<noteq> []
           \<and> fd_endTime (formData st) \<noteq> []
           \<and> \<not> js_le (fd_slotMetric (formData st)) (Num 0)
        then calls st @ [CreateScheduleConfig (scheduleRequest (formData st))]
        else calls st)"
  by (simp add: handleSubmit_def issue_def raise_toast_def Let_def split: sum.splits)

lemma js_le_zero_cases:
  "js_le n (Num 0) = (case n of Num q \<Rightarrow> q \<le> 0 | NegInf \<Rightarrow> True | _ \<Rightarrow> False)"
  by (cases n) simp_all

lemma js_gt_zero_cases:
  "js_gt n (Num 0) = (case n of Num q \<Rightarrow> 0 < q | PosInf \<Rightarrow> True | _ \<Rightarrow> False)"
  by (cases n) simp_all

text \<open>
  A metric that is a number, finite or infinite, is sent only when it is greater than 0.
\<close>

lemma handleSubmit_number_sent_only_if_positive:
  assumes "fd_slotMetric (formData st) \<noteq> NaN"
      and "calls (handleSubmit outcome st) \<noteq> calls st"
  shows "js_gt (fd_slotMetric (formData st)) (Num 0)"
  using assms
  by (cases "fd_slotMetric (formData st)")
     (auto simp: handleSubmit_issues_iff split: if_splits)

lemma parseInt_empty: "parseInt [] = NaN"
  by (simp add: parseInt_def)

lemma parseInt_one: "parseInt ''1'' = Num 1"
  by (simp add: parseInt_def radixDigit_def radixValue_def isWhiteSpace_def Let_def)

lemma parseInt_zero: "parseInt ''0'' = Num 0"
  by (simp add: parseInt_def radixDigit_def radixValue_def isWhiteSpace_def Let_def)

lemma cleared_metric_form_data:
  "formData cleared_metric_form
     = \<lparr>fd_dayOfWeek = ''1'', fd_startTime = ''09:00'', fd_endTime = ''17:00'',
        fd_slotMetric = NaN, fd_isCount = False\<rparr>"
  by (simp add: cleared_metric_form_def handleSlotMetricChange_def handleDayOfWeekChange_def
        initialProviderState_def initialFormData_def parseInt_empty)

text \<open>
  C6 fails on the code. With Monday chosen and the number field cleared, the form holds
  \<open>parseInt('') = NaN\<close>; \<open>NaN <= 0\<close> is false, so the validation lets it through and
  one \<open>createScheduleConfig\<close> request leaves with a slot metric that is not greater
  than 0. With the field set to \<open>0\<close> the submission is stopped and nothing is sent.
\<close>

theorem handleSubmit_sends_NaN_slotMetric:
  "fd_slotMetric (formData cleared_metric_form) = NaN
   \<and> \<not> js_gt NaN (Num 0)
   \<and> calls (handleSubmit (Inr JNull) cleared_metric_form)
       = [CreateScheduleConfig
            \<lparr>scr_dayOfWeek = Num 1, scr_startTime = ''09:00'', scr_endTime = ''17:00'',
             scr_slotMetric = NaN, scr_isCount = False\<rparr>]
   \<and> calls (handleSubmit (Inr JNull) zero_metric_form) = []
   \<and> toasts (handleSubmit (Inr JNull) zero_metric_form)
       = [ToastError ''Slot metric must be greater than 0'']"
proof -
  have c: "calls cleared_metric_form = []"
    by (simp add: cleared_metric_form_def handleSlotMetricChange_def
          handleDayOfWeekChange_def initialProviderState_def)
  have z: "formData zero_metric_form
     = \<lparr>fd_dayOfWeek = ''1'', fd_startTime = ''09:00'', fd_endTime = ''17:00'',
        fd_slotMetric = Num 0, fd_isCount = False\<rparr>"
    "calls zero_metric_form = []" "toasts zero_metric_form = []"
    by (simp_all add: zero_metric_form_def handleSlotMetricChange_def
          handleDayOfWeekChange_def initialProviderState_def initialFormData_def parseInt_zero)
  have sent: "calls (handleSubmit (Inr JNull) cleared_metric_form)
       = [CreateScheduleConfig
            \<lparr>scr_dayOfWeek = Num 1, scr_startTime = ''09:00'', scr_endTime = ''17:00'',
             scr_slotMetric = NaN, scr_isCount = False\<rparr>]"
    by (simp add: handleSubmit_issues_iff cleared_metric_form_data c scheduleRequest_def
          parseInt_one)
  have stopped: "calls (handleSubmit (Inr JNull) zero_metric_form) = []"
    by (simp add: handleSubmit_issues_iff z)
  have told: "toasts (handleSubmit (Inr JNull) zero_metric_form)
       = [ToastError ''Slot metric must be greater than 0'']"
    by (simp add: handleSubmit_def raise_toast_def z)
  from sent stopped told show ?thesis
    by (simp add: cleared_metric_form_data)
qed

section \<open>The listing calls of the service\<close>

lemma js_or_truthy: "truthy b \<Longrightarrow> truthy (js_or a b)"
  by (simp add: js_or_def split: option.splits)

lemma truthy_not_null: "truthy v \<Longrightarrow> v \<noteq> JNull"
  by auto

lemma getAvailableDates_result:
  assumes "request env fetched = Inr r" and "getProp env r ''dates'' = Inr d"
  shows "getAvailableDates env fetched = Inr (js_or d (JArr []))"
  using assms by (simp add: getAvailableDates_def)

lemma getAvailableSlots_result:
  assumes "request env fetched = Inr r" and "getProp env r ''slots'' = Inr d"
  shows "getAvailableSlots env fetched = Inr (js_or d (JArr []))"
  using assms by (simp add: getAvailableSlots_def)

lemma getAvailableDates_truthy:
  "getAvailableDates env fetched = Inr v \<Longrightarrow> truthy v"
  by (auto simp: getAvailableDates_def js_or_truthy split: sum.splits)

lemma getAvailableSlots_truthy:
  "getAvailableSlots env fetched = Inr v \<Longrightarrow> truthy v"
  by (auto simp: getAvailableSlots_def js_or_truthy split: sum.splits)

text \<open>
  C10, as the claim states it, fails: the two calls do not always return an array. A
  response with status 200 whose \<open>dates\<close> and \<open>slots\<close> are the number 5 makes both
  return that number.
\<close>

theorem listing_calls_return_non_array:
  "getAvailableDates example_env response_numeric_fields = Inr (JNum (Num 5))
   \<and> getAvailableSlots example_env response_numeric_fields = Inr (JNum (Num 5))
   \<and> \<not> isArray (JNum (Num 5))"
  by (simp add: getAvailableDates_def getAvailableSlots_def request_def
        response_numeric_fields_def getProp_def js_or_def)

text \<open>
  C10, amended. Whatever \<open>getAvailableDates\<close> and \<open>getAvailableSlots\<close> return is never
  null or undefined. When the call succeeds with a payload whose \<open>dates\<close> (respectively
  \<open>slots\<close>) member reads as undefined or null, they return the empty array; when it
  reads as an array, they return that array; any other member that is truthy is returned
  as it is.
\<close>

theorem listing_calls_never_null:
  "(getAvailableDates env fetched = Inr v \<longrightarrow> v \<noteq> JNull \<and> truthy v)
   \<and> (getAvailableSlots env fetched = Inr v \<longrightarrow> v \<noteq> JNull \<and> truthy v)
   \<and> (request env fetched = Inr r
        \<and> (getProp env r ''dates'' = Inr None \<or> getProp env r ''dates'' = Inr (Some JNull))
        \<longrightarrow> getAvailableDates env fetched = Inr (JArr []))
   \<and> (request env fetched = Inr r
        \<and> (getProp env r ''slots'' = Inr None \<or> getProp env r ''slots'' = Inr (Some JNull))
        \<longrightarrow> getAvailableSlots env fetched = Inr (JArr []))
   \<and> (request env fetched = Inr r \<and> getProp env r ''dates'' = Inr (Some (JArr xs))
        \<longrightarrow> getAvailableDates env fetched = Inr (JArr xs))
   \<and> (request env fetched = Inr r \<and> getProp env r ''slots'' = Inr (Some (JArr xs))
        \<longrightarrow> getAvailableSlots env fetched = Inr (JArr xs))
   \<and> (request env fetched = Inr r \<and> getProp env r ''dates'' = Inr (Some x) \<and> truthy x
        \<longrightarrow> getAvailableDates env fetched = Inr x)
   \<and> (request env fetched = Inr r \<and> getProp env r ''slots'' = Inr (Some x) \<and> truthy x
        \<longrightarrow> getAvailableSlots env fetched = Inr x)"
proof (intro conjI impI)
  assume "getAvailableDates env fetched = Inr v"
  then show "truthy v" by (rule getAvailableDates_truthy)
  then show "v \<noteq> JNull" by (rule truthy_not_null)
next
  assume "getAvailableSlots env fetched = Inr v"
  then show "truthy v" by (rule getAvailableSlots_truthy)
  then show "v \<noteq> JNull" by (rule truthy_not_null)
next
  assume "request env fetched = Inr r
    \<and> (getProp env r ''dates'' = Inr None \<or> getProp env r ''dates'' = Inr (Some JNull))"
  then show "getAvailableDates env fetched = Inr (JArr [])"
    by (auto simp: getAvailableDates_def js_or_def)
next
  assume "request env fetched = Inr r
    \<and> (getProp env r ''slots'' = Inr None \<or> getProp env r ''slots'' = Inr (Some JNull))"
  then show "getAvailableSlots env fetched = Inr (JArr [])"
    by (auto simp: getAvailableSlots_def js_or_def)
next
  assume "request env fetched = Inr r \<and> getProp env r ''dates'' = Inr (Some (JArr xs))"
  then show "getAvailableDates env fetched = Inr (JArr xs)"
    by (auto simp: getAvailableDates_def js_or_def)
next
  assume "request env fetched = Inr r \<and> getProp env r ''slots'' = Inr (Some (JArr xs))"
  then show "getAvailableSlots env fetched = Inr (JArr xs)"
    by (auto simp: getAvailableSlots_def js_or_def)
next
  assume "request env fetched = Inr r \<and> getProp env r ''dates'' = Inr (Some x) \<and> truthy x"
  then show "getAvailableDates env fetched = Inr x"
    by (auto simp: getAvailableDates_def js_or_def)
next
  assume "request env fetched = Inr r \<and> getProp env r ''slots'' = Inr (Some x) \<and> truthy x"
  then show "getAvailableSlots env fetched = Inr x"
    by (auto simp: getAvailableSlots_def js_or_def)
qed

lemma response_without_dates_payload:
  "request example_env response_without_dates = Inr (JObj [])
   \<and> getProp example_env (JObj []) ''dates'' = Inr None"
  by (simp add: request_def response_without_dates_def getProp_def)

lemma response_null_slots_payload:
  "request example_env response_null_slots = Inr (JObj [(''slots'', JNull)])
   \<and> getProp example_env (JObj [(''slots'', JNull)]) ''slots'' = Inr (Some JNull)"
  by (simp add: request_def response_null_slots_def getProp_def)

theorem listing_calls_never_null_witness:
  "request example_env response_without_dates = Inr (JObj [])
   \<and> getAvailableDates example_env response_without_dates = Inr (JArr [])
   \<and> request example_env response_null_slots = Inr (JObj [(''slots'', JNull)])
   \<and> getAvailableSlots example_env response_null_slots = Inr (JArr [])"
proof -
  note p1 = response_without_dates_payload and p2 = response_null_slots_payload
  have a: "getAvailableDates example_env response_without_dates = Inr (JArr [])"
    using listing_calls_never_null [of example_env response_without_dates "JArr []"
        "JObj []" "[]" JNull] p1
    by simp
  have b: "getAvailableSlots example_env response_null_slots = Inr (JArr [])"
    using listing_calls_never_null [of example_env response_null_slots "JArr []"
        "JObj [(''slots'', JNull)]" "[]" JNull] p2
    by simp
  from a b p1 p2 show ?thesis by simp
qed

section \<open>The slot generator\<close>

lemma div_step:
  assumes "0 < (m::nat)" and "s + m \<le> e"
  shows "(e - s) div m = Suc ((e - (s + m)) div m)"
proof -
  have "e - s = (e - (s + m)) + m" using assms(2) by simp
  then have "(e - s) div m = ((e - (s + m)) + m) div m" by simp
  also have "\<dots> = Suc ((e - (s + m)) div m)" using assms(1) by simp
  finally show ?thesis .
qed

lemma timeDivided_closed:
  assumes "0 < m"
  shows "timeDivided m s e = map (\<lambda>i. (s + i * m, s + (i + 1) * m)) [0..<(e - s) div m]"
  using assms
proof (induction m s e rule: timeDivided.induct)
  case (1 metric s e)
  show ?case
  proof (cases "s + metric \<le> e")
    case True
    have d: "(e - s) div metric = Suc ((e - (s + metric)) div metric)"
      using div_step [OF "1.prems" True] .
    have ih: "timeDivided metric (s + metric) e
        = map (\<lambda>i. (s + metric + i * metric, s + metric + (i + 1) * metric))
            [0..<(e - (s + metric)) div metric]"
      using "1.IH" "1.prems" True by simp
    have "timeDivided metric s e = (s, s + metric) # timeDivided metric (s + metric) e"
      using True "1.prems" by (simp add: timeDivided.simps [of metric s e])
    also have "\<dots> = map (\<lambda>i. (s + i * metric, s + (i + 1) * metric))
                    [0..<Suc ((e - (s + metric)) div metric)]"
      unfolding ih
      by (simp only: upt_conv_Cons [OF zero_less_Suc] map_Suc_upt [symmetric] list.map
            map_map o_def)
         (simp add: ac_simps)
    finally show ?thesis unfolding d .
  next
    case False
    with "1.prems" have "e - s < metric" by linarith
    then have "(e - s) div metric = 0" by simp
    moreover have "timeDivided metric s e = []"
      using False by (simp add: timeDivided.simps [of metric s e])
    ultimately show ?thesis by simp
  qed
qed

lemma generate_timeDivided:
  assumes "rule_slotMode rule = TimeDivided" and "0 < rule_slotMetric rule"
  shows "generate rule date
     = map (\<lambda>i. \<lparr>tw_providerId = rule_providerId rule, tw_date = date,
                  tw_startTime = rule_startTime rule + i * rule_slotMetric rule,
                  tw_endTime = rule_startTime rule + (i + 1) * rule_slotMetric rule,
                  tw_capacity = 1\<rparr>)
         [0..<(rule_endTime rule - rule_startTime rule) div rule_slotMetric rule]"
  using assms by (simp add: generate_def timeDivided_closed o_def)

lemma window_within:
  assumes "0 < (m::nat)" and "i < (e - s) div m"
  shows "s + (i + 1) * m \<le> e"
proof -
  from assms(2) have "i + 1 \<le> (e - s) div m" by simp
  then have "(i + 1) * m \<le> ((e - s) div m) * m" by (rule mult_le_mono1)
  also have "\<dots> \<le> e - s" by simp
  finally have le: "(i + 1) * m \<le> e - s" .
  have "0 < (i + 1) * m" using assms(1) by simp
  with le have "0 < e - s" by linarith
  with le show ?thesis by linarith
qed

lemma remainder_dropped:
  assumes "0 < (m::nat)"
  shows "e - (s + ((e - s) div m) * m) < m"
proof -
  have "e - (s + ((e - s) div m) * m) = (e - s) - ((e - s) div m) * m" by simp
  also have "\<dots> = (e - s) mod m" by (simp add: minus_div_mult_eq_mod)
  also have "\<dots> < m" using assms by simp
  finally show ?thesis .
qed

lemma example_windows:
  "map tw_endTime (generate example_rule date)
     = [clock 9 30, clock 10 0, clock 10 30, clock 11 0, clock 11 30, clock 12 0, clock 12 30,
        clock 13 0, clock 13 30, clock 14 0, clock 14 30, clock 15 0, clock 15 30, clock 16 0,
        clock 16 30, clock 17 0]"
proof -
  have m: "rule_slotMode example_rule = TimeDivided" "0 < rule_slotMetric example_rule"
    by (simp_all add: example_rule_def)
  have n: "(rule_endTime example_rule - rule_startTime example_rule)
             div rule_slotMetric example_rule = 16"
    by (simp add: example_rule_def clock_def)
  have u: "[0..<16] = [0, 1, 2, 3, 4, 5, 6, 7, 8, 9, 10, 11, 12, 13, 14, 15 :: nat]"
    by (simp add: upt_rec)
  show ?thesis
    unfolding generate_timeDivided [OF m] n u
    by (simp add: example_rule_def clock_def)
qed


lemma example_starts:
  "map tw_startTime (generate example_rule date)
     = [clock 9 0, clock 9 30, clock 10 0, clock 10 30, clock 11 0, clock 11 30, clock 12 0,
        clock 12 30, clock 13 0, clock 13 30, clock 14 0, clock 14 30, clock 15 0, clock 15 30,
        clock 16 0, clock 16 30]"
proof -
  have m: "rule_slotMode example_rule = TimeDivided" "0 < rule_slotMetric example_rule"
    by (simp_all add: example_rule_def)
  have n: "(rule_endTime example_rule - rule_startTime example_rule)
             div rule_slotMetric example_rule = 16"
    by (simp add: example_rule_def clock_def)
  have u: "[0..<16] = [0, 1, 2, 3, 4, 5, 6, 7, 8, 9, 10, 11, 12, 13, 14, 15 :: nat]"
    by (simp add: upt_rec)
  show ?thesis
    unfolding generate_timeDivided [OF m] n u
    by (simp add: example_rule_def clock_def)
qed

text \<open>
  C7. For a time-divided rule with a positive metric and any date, the generator emits
  the windows \<open>[start + i * metric, start + (i + 1) * metric)\<close> for \<open>i\<close> from 0 up to,
  but not including, \<open>(end - start) div metric\<close>: consecutive, each \<open>metric\<close> minutes long,
  the first at the rule's start, none ending after the rule's end, each of capacity 1. What
  lies between the last window's end and the rule's end is shorter than the metric and
  is not emitted. For the rule 09:00 to 17:10 with a metric of 30 the windows end at
  09:30, 10:00, and so on to 17:00, and none starts at 17:00.
\<close>

theorem timeDivided_rule_windows:
  assumes "rule_slotMode rule = TimeDivided" and "0 < rule_slotMetric rule"
  shows "generate rule date
       = map (\<lambda>i. \<lparr>tw_providerId = rule_providerId rule, tw_date = date,
                    tw_startTime = rule_startTime rule + i * rule_slotMetric rule,
                    tw_endTime = rule_startTime rule + (i + 1) * rule_slotMetric rule,
                    tw_capacity = 1\<rparr>)
           [0..<(rule_endTime rule - rule_startTime rule) div rule_slotMetric rule]
     \<and> (\<forall>w \<in> set (generate rule date).
          tw_endTime w \<le> rule_endTime rule \<and> tw_capacity w = 1
          \<and> tw_endTime w = tw_startTime w + rule_slotMetric rule)
     \<and> rule_endTime rule
          - (rule_startTime rule
             + ((rule_endTime rule - rule_startTime rule) div rule_slotMetric rule)
               * rule_slotMetric rule)
         < rule_slotMetric rule
     \<and> map tw_endTime (generate example_rule date)
         = [clock 9 30, clock 10 0, clock 10 30, clock 11 0, clock 11 30, clock 12 0,
            clock 12 30, clock 13 0, clock 13 30, clock 14 0, clock 14 30, clock 15 0,
            clock 15 30, clock 16 0, clock 16 30, clock 17 0]
     \<and> clock 17 0 \<notin> set (map tw_startTime (generate example_rule date))"
proof -
  note closed = generate_timeDivided [OF assms, of date]
  have each: "\<forall>w \<in> set (generate rule date).
          tw_endTime w \<le> rule_endTime rule \<and> tw_capacity w = 1
          \<and> tw_endTime w = tw_startTime w + rule_slotMetric rule"
    unfolding closed using window_within [OF assms(2)] by auto
  have rest: "rule_endTime rule
          - (rule_startTime rule
             + ((rule_endTime rule - rule_startTime rule) div rule_slotMetric rule)
               * rule_slotMetric rule)
         < rule_slotMetric rule"
    by (rule remainder_dropped [OF assms(2)])
  have starts: "clock 17 0 \<notin> set (map tw_startTime (generate example_rule date))"
    using example_starts [of date] by (simp add: clock_def)
  from closed each rest example_windows [of date] starts show ?thesis by blast
qed

theorem timeDivided_rule_windows_witness:
  "rule_slotMode example_rule = TimeDivided \<and> rule_slotMetric example_rule = 30
   \<and> length (generate example_rule 19737) = 16
   \<and> map tw_capacity (generate example_rule 19737) = replicate 16 1
   \<and> map tw_date (generate example_rule 19737) = replicate 16 19737"
proof -
  have m: "rule_slotMode example_rule = TimeDivided" "0 < rule_slotMetric example_rule"
    by (simp_all add: example_rule_def)
  have v: "rule_slotMetric example_rule = 30"
    by (simp add: example_rule_def)
  have n: "(rule_endTime example_rule - rule_startTime example_rule)
             div rule_slotMetric example_rule = 16"
    by (simp add: example_rule_def clock_def)
  note t = timeDivided_rule_windows [OF m, of 19737]
  have g: "generate example_rule 19737
       = map (\<lambda>i. \<lparr>tw_providerId = rule_providerId example_rule, tw_date = 19737,
                    tw_startTime = rule_startTime example_rule + i * rule_slotMetric example_rule,
                    tw_endTime = rule_startTime example_rule
                      + (i + 1) * rule_slotMetric example_rule,
                    tw_capacity = 1\<rparr>) [0..<16]"
    using t [THEN conjunct1] unfolding n .
  have len: "length (generate example_rule 19737) = 16"
    unfolding g by simp
  have cap: "map tw_capacity (generate example_rule 19737) = replicate 16 1"
    unfolding g by (simp add: o_def map_replicate_const)
  have day: "map tw_date (generate example_rule 19737) = replicate 16 19737"
    unfolding g by (simp add: o_def map_replicate_const)
  from m(1) v len cap day show ?thesis by simp
qed

section \<open>Admission\<close>

lemma generate_provider_date:
  "w \<in> set (generate r d) \<Longrightarrow> tw_providerId w = rule_providerId r \<and> tw_date w = d"
  by (auto simp: generate_def split: SlotMode.splits)

lemma generate_capacity:
  "w \<in> set (generate r d)
   \<Longrightarrow> tw_capacity w
         = (case rule_slotMode r of TimeDivided \<Rightarrow> 1 | CountBased \<Rightarrow> rule_slotMetric r)"
  by (auto simp: generate_def split: SlotMode.splits)

lemma windowsOn_set:
  "set (windowsOn rules p d)
     = (\<Union>r \<in> {r \<in> set rules. rule_providerId r = p \<and> rule_dayOfWeek r = weekday d}.
          set (generate r d))"
  by (auto simp: windowsOn_def)

lemma windowsOn_provider_date:
  "w \<in> set (windowsOn rules p d) \<Longrightarrow> tw_providerId w = p \<and> tw_date w = d"
  by (auto simp: windowsOn_set dest: generate_provider_date)

lemma find_Some_member: "find P xs = Some x \<Longrightarrow> x \<in> set xs \<and> P x"
  by (induction xs) (auto split: if_splits)

lemma resolve_window:
  assumes "resolve rules p d t = Inr w"
  shows "w \<in> set (windowsOn rules p d) \<and> tw_startTime w = t \<and> t < tw_endTime w"
proof -
  let ?cov = "filter (\<lambda>w. tw_startTime w \<le> t \<and> t < tw_endTime w) (windowsOn rules p d)"
  from assms have "find (\<lambda>w. tw_startTime w = t) ?cov = Some w"
    by (simp add: resolve_def Let_def split: if_splits option.splits)
  then have "w \<in> set ?cov \<and> tw_startTime w = t"
    by (rule find_Some_member)
  then show ?thesis by auto
qed

lemma resolve_key:
  assumes "resolve rules p d t = Inr w"
  shows "tw_providerId w = p \<and> tw_date w = d \<and> tw_startTime w = t"
  using resolve_window [OF assms] windowsOn_provider_date by blast

lemma book_admits:
  assumes "resolve rules p d t = Inr w" and "today \<le> d" and "d \<le> today + int limit"
  shows "book rules limit today c p d t desc ledger
     = (if countScheduled ledger p d t (tw_endTime w) < tw_capacity w
        then Inr (\<lparr>ap_id = length ledger, ap_customerId = c, ap_providerId = p,
                   ap_appointmentDate = d, ap_startTime = t, ap_endTime = tw_endTime w,
                   ap_status = scheduled, ap_serviceDescription = desc\<rparr>,
                  ledger @ [\<lparr>ap_id = length ledger, ap_customerId = c, ap_providerId = p,
                   ap_appointmentDate = d, ap_startTime = t, ap_endTime = tw_endTime w,
                   ap_status = scheduled, ap_serviceDescription = desc\<rparr>])
        else Inl SlotFull)"
  using assms resolve_key [OF assms(1)]
  by (auto simp: book_def remaining_def Let_def)

lemma countScheduled_snoc:
  "countScheduled (ledger @ [a]) p d s e
     = countScheduled ledger p d s e + (if occupies p d s e a then 1 else 0)"
  by (simp add: countScheduled_def)

lemma bookAll_counts:
  assumes "resolve rules p d t = Inr w" and "today \<le> d" and "d \<le> today + int limit"
  shows "succeeded (fst (bookAll rules limit today p d t cs ledger))
           = min (length cs) (tw_capacity w - countScheduled ledger p d t (tw_endTime w))
     \<and> failedWith SlotFull (fst (bookAll rules limit today p d t cs ledger))
           = length cs - (tw_capacity w - countScheduled ledger p d t (tw_endTime w))
     \<and> length (fst (bookAll rules limit today p d t cs ledger)) = length cs"
proof (induction cs arbitrary: ledger)
  case Nil
  show ?case by (simp add: succeeded_def failedWith_def)
next
  case (Cons c cs)
  let ?k = "countScheduled ledger p d t (tw_endTime w)"
  show ?case
  proof (cases "?k < tw_capacity w")
    case True
    let ?a = "\<lparr>ap_id = length ledger, ap_customerId = c, ap_providerId = p,
                   ap_appointmentDate = d, ap_startTime = t, ap_endTime = tw_endTime w,
                   ap_status = scheduled, ap_serviceDescription = None\<rparr>"
    have b: "book rules limit today c p d t None ledger = Inr (?a, ledger @ [?a])"
      using book_admits [OF assms, of c None ledger] True by simp
    have k: "countScheduled (ledger @ [?a]) p d t (tw_endTime w) = Suc ?k"
      by (simp add: countScheduled_snoc occupies_def)
    from Cons.IH [of "ledger @ [?a]"] True show ?thesis
      unfolding k
      by (auto simp: b succeeded_def failedWith_def split: prod.splits)
  next
    case False
    have b: "book rules limit today c p d t None ledger = Inl SlotFull"
      using book_admits [OF assms, of c None ledger] False by simp
    from Cons.IH [of ledger] False show ?thesis
      by (auto simp: b succeeded_def failedWith_def split: prod.splits)
  qed
qed

lemma resolve_capacity:
  assumes "resolve rules p d t = Inr w"
  shows "\<forall>r \<in> set rules. w \<in> set (generate r d) \<longrightarrow>
           tw_capacity w
             = (case rule_slotMode r of TimeDivided \<Rightarrow> 1 | CountBased \<Rightarrow> rule_slotMetric r)"
  using generate_capacity by blast

lemma resolve_generated:
  assumes "resolve rules p d t = Inr w"
  shows "\<exists>r \<in> set rules. rule_providerId r = p \<and> rule_dayOfWeek r = weekday d
           \<and> w \<in> set (generate r d)"
  using resolve_window [OF assms] by (auto simp: windowsOn_set)


lemma admit_reads_request:
  assumes "admit readDate rules limit today customerId req ledger = Inr (a, ledger')"
  shows "\<exists>d t w. readDate (bar_appointmentDate req) = Some d
           \<and> readHHmm (bar_startTime req) = Some t
           \<and> resolve rules (bar_providerId req) d t = Inr w
           \<and> ap_appointmentDate a = d \<and> ap_startTime a = t \<and> ap_endTime a = tw_endTime w
           \<and> ap_status a = scheduled \<and> ledger' = ledger @ [a]"
proof -
  from assms obtain d t where
    rd: "readDate (bar_appointmentDate req) = Some d"
      and rt: "readHHmm (bar_startTime req) = Some t"
      and b: "book rules limit today customerId (bar_providerId req) d t
                (bar_serviceDescription req) ledger = Inr (a, ledger')"
    by (auto simp: admit_def split: option.splits)
  from b obtain w where w: "resolve rules (bar_providerId req) d t = Inr w"
    by (auto simp: book_def split: sum.splits)
  from b w have "ap_appointmentDate a = d \<and> ap_startTime a = tw_startTime w
      \<and> ap_endTime a = tw_endTime w \<and> ap_status a = scheduled \<and> ledger' = ledger @ [a]"
    by (auto simp: book_def Let_def split: if_splits)
  with resolve_key [OF w] rd rt w show ?thesis by auto
qed

lemma bookAppointmentBody_keys:
  "map fst (bookAppointmentBody (bookingRequest env st))
     = [''providerId'', ''appointmentDate'', ''startTime'']
       @ (if serviceDescription st = [] then [] else [''serviceDescription''])"
  by (simp add: bookAppointmentBody_def bookingRequest_def)

text \<open>
  C4. The booking request the page issues is written with the members \<open>providerId\<close>,
  \<open>appointmentDate\<close> and \<open>startTime\<close>, followed by \<open>serviceDescription\<close> exactly when the
  description is not empty, and with no \<open>endTime\<close>. When the admission controller admits
  that request, the appointment it appends to the ledger starts at the request's start
  time and ends where a window generated from the current rules for that provider and
  date, starting at that time, ends.
\<close>

theorem booking_request_carries_no_endTime:
  assumes "selectedProvider st \<noteq> []" and "selectedDate st \<noteq> []"
      and "selectedTimeSlot st \<noteq> []"
  shows "bookingCalls (calls (handleBookAppointment env bookOutcome slotsOutcome st))
           = bookingCalls (calls st) @ [bookingRequest env st]
     \<and> map fst (bookAppointmentBody (bookingRequest env st))
           = [''providerId'', ''appointmentDate'', ''startTime'']
             @ (if serviceDescription st = [] then [] else [''serviceDescription''])
     \<and> ''endTime'' \<notin> set (map fst (bookAppointmentBody (bookingRequest env st)))
     \<and> (\<forall>a ledger'.
          admit readDate rules limit today customerId (bookingRequest env st) ledger
            = Inr (a, ledger')
          \<longrightarrow> ledger' = ledger @ [a]
              \<and> (\<exists>w \<in> set (windowsOn rules (selectedProvider st) (ap_appointmentDate a)).
                    readHHmm (bar_startTime (bookingRequest env st)) = Some (tw_startTime w)
                    \<and> ap_startTime a = tw_startTime w \<and> ap_endTime a = tw_endTime w))"
proof -
  have issued: "bookingCalls (calls (handleBookAppointment env bookOutcome slotsOutcome st))
           = bookingCalls (calls st) @ [bookingRequest env st]"
    using assms
    by (simp add: calls_handleBookAppointment bookingCalls_append split: sum.splits)
  have no_end: "''endTime'' \<notin> set (map fst (bookAppointmentBody (bookingRequest env st)))"
    unfolding bookAppointmentBody_keys by simp
  have admitted: "ledger' = ledger @ [a]
      \<and> (\<exists>w \<in> set (windowsOn rules (selectedProvider st) (ap_appointmentDate a)).
            readHHmm (bar_startTime (bookingRequest env st)) = Some (tw_startTime w)
            \<and> ap_startTime a = tw_startTime w \<and> ap_endTime a = tw_endTime w)"
    if "admit readDate rules limit today customerId (bookingRequest env st) ledger
          = Inr (a, ledger')" for a ledger'
  proof -
    from admit_reads_request [OF that] obtain d t w where
      r: "readHHmm (bar_startTime (bookingRequest env st)) = Some t"
        "resolve rules (bar_providerId (bookingRequest env st)) d t = Inr w"
        "ap_appointmentDate a = d" "ap_startTime a = t" "ap_endTime a = tw_endTime w"
        "ledger' = ledger @ [a]"
      by blast
    have p: "bar_providerId (bookingRequest env st) = selectedProvider st"
      by (simp add: bookingRequest_def)
    from resolve_window [OF r(2)] have
      m: "w \<in> set (windowsOn rules (selectedProvider st) (ap_appointmentDate a))"
        and s: "tw_startTime w = t"
      unfolding p r(3) [symmetric] by simp_all
    have "readHHmm (bar_startTime (bookingRequest env st)) = Some (tw_startTime w)
        \<and> ap_startTime a = tw_startTime w \<and> ap_endTime a = tw_endTime w"
      using r(1,4,5) s by simp
    with m r(6) show ?thesis by blast
  qed
  from issued bookAppointmentBody_keys [of env st] no_end admitted show ?thesis by blast
qed

lemma example_admission:
  "admit example_readDate [example_rule] 30 19730 ''c1''
       (bookingRequest example_env example_state) []
     = Inr (\<lparr>ap_id = 0, ap_customerId = ''c1'', ap_providerId = ''p1'',
             ap_appointmentDate = 19737, ap_startTime = 870, ap_endTime = 900,
             ap_status = scheduled, ap_serviceDescription = None\<rparr>,
            [\<lparr>ap_id = 0, ap_customerId = ''c1'', ap_providerId = ''p1'',
              ap_appointmentDate = 19737, ap_startTime = 870, ap_endTime = 900,
              ap_status = scheduled, ap_serviceDescription = None\<rparr>])"
  by code_simp

theorem booking_request_carries_no_endTime_witness:
  "map fst (bookAppointmentBody (bookingRequest example_env example_state))
     = [''providerId'', ''appointmentDate'', ''startTime'']
   \<and> (\<exists>w \<in> set (windowsOn [example_rule] ''p1'' 19737).
        tw_startTime w = clock 14 30 \<and> tw_endTime w = clock 15 0)"
proof -
  have sel: "selectedProvider example_state \<noteq> []" "selectedDate example_state \<noteq> []"
    "selectedTimeSlot example_state \<noteq> []"
    using example_state_selected by simp_all
  have st: "selectedProvider example_state = ''p1''" "serviceDescription example_state = []"
    by (simp_all add: example_state_def)
  note t = booking_request_carries_no_endTime [OF sel, of example_env "Inr JNull"
      "Inl NonError" example_readDate "[example_rule]" 30 19730 "''c1''" "[]"]
  have keys: "map fst (bookAppointmentBody (bookingRequest example_env example_state))
     = [''providerId'', ''appointmentDate'', ''startTime'']"
    using t [THEN conjunct2, THEN conjunct1] by (simp add: st)
  have "\<exists>w \<in> set (windowsOn [example_rule] ''p1'' 19737).
        tw_startTime w = 870 \<and> tw_endTime w = 900"
    using t [THEN conjunct2, THEN conjunct2, THEN conjunct2] example_admission
    by (fastforce simp: st)
  with keys show ?thesis by (simp add: clock_def)
qed

text \<open>
  C8. Take a window that the current rules resolve for a provider, a date within the
  booking horizon and a start time, with no scheduled appointment in it yet. When N
  callers book it concurrently, the admissions, each atomic, take effect in some order;
  whatever the order, exactly \<open>min N capacity\<close> of them succeed and all the others fail
  with \<open>SlotFull\<close>. The capacity is 1 when the window comes from a time-divided rule and
  the rule's metric when it comes from a count-based rule.
\<close>

theorem concurrent_bookings_fill_capacity:
  assumes "resolve rules providerId date startTime = Inr w"
      and "today \<le> date" and "date \<le> today + int limit"
      and "countScheduled ledger providerId date startTime (tw_endTime w) = 0"
  shows "succeeded (fst (bookAll rules limit today providerId date startTime customers ledger))
           = min (length customers) (tw_capacity w)
     \<and> failedWith SlotFull
           (fst (bookAll rules limit today providerId date startTime customers ledger))
           = length customers - min (length customers) (tw_capacity w)
     \<and> length (fst (bookAll rules limit today providerId date startTime customers ledger))
           = length customers
     \<and> (\<forall>r \<in> set rules. w \<in> set (generate r date) \<longrightarrow>
           tw_capacity w
             = (case rule_slotMode r of TimeDivided \<Rightarrow> 1 | CountBased \<Rightarrow> rule_slotMetric r))"
proof -
  note c = bookAll_counts [OF assms(1-3), of customers ledger]
  have "length customers - tw_capacity w
      = length customers - min (length customers) (tw_capacity w)"
    by simp
  with c resolve_capacity [OF assms(1)] show ?thesis
    unfolding assms(4) by simp
qed

lemma example_resolutions:
  "resolve [example_rule, example_count_rule] ''p1'' 19737 (clock 9 0)
     = Inr \<lparr>tw_providerId = ''p1'', tw_date = 19737, tw_startTime = 540, tw_endTime = 570,
            tw_capacity = 1\<rparr>"
  "resolve [example_rule, example_count_rule] ''p2'' 19737 (clock 9 0)
     = Inr \<lparr>tw_providerId = ''p2'', tw_date = 19737, tw_startTime = 540, tw_endTime = 1020,
            tw_capacity = 2\<rparr>"
  by code_simp+

theorem concurrent_bookings_fill_capacity_witness:
  "succeeded (fst (bookAll [example_rule, example_count_rule] 30 19730 ''p1'' 19737 (clock 9 0)
       [''a'', ''b'', ''c''] [])) = 1
   \<and> failedWith SlotFull (fst (bookAll [example_rule, example_count_rule] 30 19730 ''p1''
       19737 (clock 9 0) [''a'', ''b'', ''c''] [])) = 2
   \<and> succeeded (fst (bookAll [example_rule, example_count_rule] 30 19730 ''p2'' 19737
       (clock 9 0) [''a'', ''b'', ''c''] [])) = 2
   \<and> failedWith SlotFull (fst (bookAll [example_rule, example_count_rule] 30 19730 ''p2''
       19737 (clock 9 0) [''a'', ''b'', ''c''] [])) = 1"
proof -
  have h: "(19730 :: int) \<le> 19737" "(19737 :: int) \<le> 19730 + int 30" by simp_all
  have e: "countScheduled [] ''p1'' 19737 (clock 9 0) 570 = 0"
    "countScheduled [] ''p2'' 19737 (clock 9 0) 1020 = 0"
    by (simp_all add: countScheduled_def)
  have one: "succeeded (fst (bookAll [example_rule, example_count_rule] 30 19730 ''p1'' 19737
        (clock 9 0) [''a'', ''b'', ''c''] [])) = 1
      \<and> failedWith SlotFull (fst (bookAll [example_rule, example_count_rule] 30 19730 ''p1''
        19737 (clock 9 0) [''a'', ''b'', ''c''] [])) = 2"
    using concurrent_bookings_fill_capacity [OF example_resolutions(1) h,
        of "[]" "[''a'', ''b'', ''c'']"] e(1)
    by simp
  have two: "succeeded (fst (bookAll [example_rule, example_count_rule] 30 19730 ''p2'' 19737
        (clock 9 0) [''a'', ''b'', ''c''] [])) = 2
      \<and> failedWith SlotFull (fst (bookAll [example_rule, example_count_rule] 30 19730 ''p2''
        19737 (clock 9 0) [''a'', ''b'', ''c''] [])) = 1"
    using concurrent_bookings_fill_capacity [OF example_resolutions(2) h,
        of "[]" "[''a'', ''b'', ''c'']"] e(2)
    by simp
  from one two show ?thesis by simp
qed
end
